theory Spec2Isabelle
  imports Main
begin

section \<open>Values and strings of the TypeScript side\<close>

text \<open>
  A JavaScript string is modelled as a \<^typ>\<open>string\<close> whose characters are the code
  units below 256. Values that arrive in a request body or in a tool call are JSON values.
  No operation of the program computes with a JSON number, so its carrier is \<^typ>\<open>int\<close>.
  \<open>JNative\<close> stands for a value of the runtime that no JSON text denotes: the functions
  and objects that every object inherits from \<open>Object.prototype\<close>.
\<close>

datatype jsvalue =
    JNull
  | JBool bool
  | JNum int
  | JStr string
  | JArr "jsvalue list"
  | JObj "(string \<times> jsvalue) list"
  | JNative

type_synonym jsobject = "string \<rightharpoonup> jsvalue"

text \<open>
  Reading \<open>obj[key]\<close> on a plain object finds the object's own property first and the
  members of \<open>Object.prototype\<close> otherwise; \<open>None\<close> is \<open>undefined\<close>.
\<close>

definition object_prototype_keys :: "string list" where
  "object_prototype_keys =
     [''constructor'', ''__defineGetter__'', ''__defineSetter__'', ''hasOwnProperty'',
      ''__lookupGetter__'', ''__lookupSetter__'', ''isPrototypeOf'', ''propertyIsEnumerable'',
      ''toString'', ''valueOf'', ''__proto__'', ''toLocaleString'']"

definition js_get :: "jsobject \<Rightarrow> string \<Rightarrow> jsvalue option" where
  "js_get obj key =
     (case obj key of
        Some v \<Rightarrow> Some v
      | None \<Rightarrow> if key \<in> set object_prototype_keys then Some JNative else None)"

text \<open>The values that a condition \<open>if (v)\<close> accepts.\<close>

fun truthy :: "jsvalue option \<Rightarrow> bool" where
  "truthy None = False"
| "truthy (Some JNull) = False"
| "truthy (Some (JBool b)) = b"
| "truthy (Some (JNum n)) = (n \<noteq> 0)"
| "truthy (Some (JStr s)) = (s \<noteq> [])"
| "truthy (Some _) = True"

text \<open>
  \<open>String.prototype.trim\<close> removes white space and line terminators from both ends.
  Among the code units below 256 these are TAB, LF, VT, FF, CR, SPACE and NBSP.
\<close>

definition is_js_space :: "char \<Rightarrow> bool" where
  "is_js_space c \<longleftrightarrow>
     c \<in> set [CHR 0x09, CHR 0x0A, CHR 0x0B, CHR 0x0C, CHR 0x0D, CHR 0x20, CHR 0xA0]"

definition trim :: "string \<Rightarrow> string" where
  "trim s = rev (dropWhile is_js_space (rev (dropWhile is_js_space s)))"

text \<open>\<open>String.prototype.toLowerCase\<close> on the code units below 256.\<close>

definition lower_char :: "char \<Rightarrow> char" where
  "lower_char c =
     (let n = (of_char c :: nat)
      in if (65 \<le> n \<and> n \<le> 90) \<or> (192 \<le> n \<and> n \<le> 222 \<and> n \<noteq> 215)
         then char_of (n + 32) else c)"

definition toLowerCase :: "string \<Rightarrow> string" where
  "toLowerCase s = map lower_char s"

fun startsWith :: "string \<Rightarrow> string \<Rightarrow> bool" where
  "startsWith s [] = True"
| "startsWith [] (y # ys) = False"
| "startsWith (x # xs) (y # ys) = (x = y \<and> startsWith xs ys)"

fun js_includes :: "string \<Rightarrow> string \<Rightarrow> bool" where
  "js_includes [] t = (t = [])"
| "js_includes (c # cs) t = (startsWith (c # cs) t \<or> js_includes cs t)"

text \<open>
  The text of a number in a template literal; the numbers of the program are integers.
\<close>

fun digits :: "nat \<Rightarrow> string" where
  "digits n = (if n < 10 then [''0123456789'' ! n]
               else digits (n div 10) @ [''0123456789'' ! (n mod 10)])"

declare digits.simps [simp del]

definition number_text :: "int \<Rightarrow> string" where
  "number_text i = (if i < 0 then ''-'' @ digits (nat (- i)) else digits (nat i))"

section \<open>The shared invoker of the core module\<close>

text \<open>
  \<open>executeGkit\<close> spawns \<open>./gkit.sh\<close> through a shell, accumulates both output streams
  and resolves when the child closes. The child is the environment: \<open>spawn_child\<close> gives,
  for a program and its argument array, what the child wrote and the code it closed with
  (\<open>None\<close> as exit code is JavaScript's \<open>null\<close>, a child ended by a signal), or
  \<open>None\<close> for a child that never closes. No timeout exists, so in that case the promise
  never resolves. The parameters are typed \<open>string\<close> and \<open>string[]\<close>, but both
  adapters pass on what they read from a table and from the request unchecked, so they are
  values here.
\<close>

record proc_outcome =
  exit_code :: "int option"
  stdout :: string
  stderr :: string

type_synonym spawn_call = "string \<times> jsvalue list"

type_synonym spawner = "string \<Rightarrow> jsvalue list \<Rightarrow> proc_outcome option"

record InvocationResult =
  res_success :: bool
  res_output :: string
  res_error :: string

definition on_close :: "proc_outcome \<Rightarrow> InvocationResult" where
  "on_close p = \<lparr> res_success = (exit_code p = Some 0),
                  res_output = trim (stdout p),
                  res_error = trim (stderr p) \<rparr>"

definition executeGkit :: "spawner \<Rightarrow> jsvalue \<Rightarrow> jsvalue list \<Rightarrow> InvocationResult option \<times> spawn_call list" where
  "executeGkit spawn_child command args =
     (map_option on_close (spawn_child ''./gkit.sh'' (command # args)),
      [(''./gkit.sh'', command # args)])"

text \<open>A child that closes with the given exit code after writing the given streams.\<close>

definition child_closing :: "int \<Rightarrow> string \<Rightarrow> string \<Rightarrow> spawner" where
  "child_closing code out err = (\<lambda>file argv. Some \<lparr> exit_code = Some code, stdout = out, stderr = err \<rparr>)"

section \<open>The command registry of the core module\<close>

record ParamSchema =
  param_type :: string
  param_description :: string
  param_default :: "string option"

text \<open>
  \<open>tool_properties\<close> is \<open>inputSchema.properties\<close>: an association list, because
  \<open>Object.keys\<close> enumerates the parameter names in the order of their declaration.
\<close>

record Tool =
  tool_name :: string
  tool_description :: string
  tool_properties :: "(string \<times> ParamSchema) list"
  tool_required :: "string list"

definition str_param :: "string \<Rightarrow> ParamSchema" where
  "str_param d = \<lparr> param_type = ''string'', param_description = d, param_default = None \<rparr>"

definition str_param_default :: "string \<Rightarrow> string \<Rightarrow> ParamSchema" where
  "str_param_default d v = \<lparr> param_type = ''string'', param_description = d, param_default = Some v \<rparr>"

definition GkitCommands :: "Tool list" where
  "GkitCommands =
    [ \<lparr> tool_name = ''create_pr'',
        tool_description = ''Create a pull request to a specific base branch'',
        tool_properties =
          [ (''base'', str_param_default ''Base branch name (default: release)'' ''release''),
            (''title'', str_param ''PR title (optional, will use --fill if not provided)'') ],
        tool_required = [] \<rparr>,
      \<lparr> tool_name = ''create_pr_to_staging'',
        tool_description = ''Create a pull request to the latest release branch (staging)'',
        tool_properties =
          [ (''remote'', str_param_default ''Remote name (default: origin)'' ''origin''),
            (''title'', str_param ''PR title'') ],
        tool_required = [] \<rparr>,
      \<lparr> tool_name = ''create_branch'',
        tool_description = ''Create a new branch from develop (or specified branch)'',
        tool_properties =
          [ (''branch'', str_param ''New branch name''),
            (''from'', str_param_default ''Source branch (default: develop)'' ''develop''),
            (''remote'', str_param_default ''Remote name (default: origin)'' ''origin'') ],
        tool_required = [''branch''] \<rparr>,
      \<lparr> tool_name = ''create_branch_from_staging'',
        tool_description = ''Create a new branch from the latest release branch'',
        tool_properties =
          [ (''branch'', str_param ''New branch name''),
            (''remote'', str_param_default ''Remote name (default: origin)'' ''origin'') ],
        tool_required = [''branch''] \<rparr>,
      \<lparr> tool_name = ''create_hotfix_branch'',
        tool_description = ''Create a new hotfix branch from main (or specified branch)'',
        tool_properties =
          [ (''branch'', str_param ''New branch name''),
            (''from'', str_param_default ''Source branch (default: main)'' ''main''),
            (''remote'', str_param_default ''Remote name (default: origin)'' ''origin'') ],
        tool_required = [''branch''] \<rparr>,
      \<lparr> tool_name = ''approve_pr'',
        tool_description = ''Approve a GitHub pull request'',
        tool_properties = [ (''pr_url'', str_param ''GitHub PR URL'') ],
        tool_required = [''pr_url''] \<rparr>,
      \<lparr> tool_name = ''merge_pr'',
        tool_description = ''Approve and merge a GitHub pull request'',
        tool_properties = [ (''pr_url'', str_param ''GitHub PR URL'') ],
        tool_required = [''pr_url''] \<rparr>,
      \<lparr> tool_name = ''trigger_workflow'',
        tool_description = ''Interactively trigger a GitHub Action workflow for a PR'',
        tool_properties = [ (''pr_url'', str_param ''GitHub PR URL'') ],
        tool_required = [''pr_url''] \<rparr>,
      \<lparr> tool_name = ''send_slack_message'',
        tool_description = ''Send a message to a Slack channel'',
        tool_properties = [ (''message'', str_param ''Message to send'') ],
        tool_required = [''message''] \<rparr> ]"

definition ToolToGkitCommandMap :: "(string \<times> string) list" where
  "ToolToGkitCommandMap =
    [ (''create_pr'', ''pr''),
      (''create_pr_to_staging'', ''prs''),
      (''create_branch'', ''nb''),
      (''create_branch_from_staging'', ''nbs''),
      (''create_hotfix_branch'', ''nbh''),
      (''approve_pr'', ''ap''),
      (''merge_pr'', ''mg''),
      (''trigger_workflow'', ''wf''),
      (''send_slack_message'', ''sl'') ]"

text \<open>\<open>ToolToGkitCommandMap[name]\<close>: a property read on an object literal.\<close>

definition command_for :: "string \<Rightarrow> jsvalue option" where
  "command_for n = js_get (map_of (map (\<lambda>(k, v). (k, JStr v)) ToolToGkitCommandMap)) n"

text \<open>\<open>Object.keys(tool.inputSchema.properties || {})\<close>.\<close>

definition paramOrder :: "Tool \<Rightarrow> string list" where
  "paramOrder tool = map fst (tool_properties tool)"

section \<open>The HTTP adapter (server.ts)\<close>

text \<open>
  The adapter registers one POST route per registry entry. Its liveness route
  \<open>GET /health\<close> invokes nothing and is left out.
\<close>

record http_response =
  http_status :: nat
  http_body :: jsvalue

text \<open>
  What a request meets: no route of this program (\<open>NoRoute\<close>), a handler that awaits a
  child which never closes (\<open>NoResponse\<close>), or a response.
\<close>

datatype http_outcome = NoRoute | NoResponse | Response http_response

text \<open>The first required parameter whose value in the body is \<open>undefined\<close>.\<close>

definition missing_required :: "Tool \<Rightarrow> jsobject \<Rightarrow> string option" where
  "missing_required tool body = find (\<lambda>param. js_get body param = None) (tool_required tool)"

text \<open>
  The \<open>forEach\<close> loop over \<open>paramOrder\<close> that pushes every value which is not
  \<open>undefined\<close> onto \<open>args\<close>.
\<close>

fun push_params :: "jsobject \<Rightarrow> string list \<Rightarrow> jsvalue list \<Rightarrow> jsvalue list" where
  "push_params body [] args = args"
| "push_params body (param # rest) args =
     (case js_get body param of
        Some v \<Rightarrow> push_params body rest (args @ [v])
      | None \<Rightarrow> push_params body rest args)"

definition http_args :: "Tool \<Rightarrow> jsobject \<Rightarrow> jsvalue list" where
  "http_args tool body = push_params body (paramOrder tool) []"

definition required_error :: "string \<Rightarrow> jsvalue" where
  "required_error param =
     JObj [ (''success'', JBool False),
            (''error'', JStr (''Parameter '' @ [CHR 0x27] @ param @ [CHR 0x27] @ '' is required'')) ]"

text \<open>\<open>res.json(result)\<close>: the three fields of the result, status 200 by default.\<close>

definition result_json :: "InvocationResult \<Rightarrow> jsvalue" where
  "result_json r =
     JObj [ (''success'', JBool (res_success r)),
            (''output'', JStr (res_output r)),
            (''error'', JStr (res_error r)) ]"

definition post_handler ::
  "spawner \<Rightarrow> Tool \<Rightarrow> jsvalue \<Rightarrow> jsobject \<Rightarrow> http_outcome \<times> spawn_call list" where
  "post_handler spawn_child tool command body =
     (case missing_required tool body of
        Some param \<Rightarrow> (Response \<lparr> http_status = 400, http_body = required_error param \<rparr>, [])
      | None \<Rightarrow>
          (case executeGkit spawn_child command (http_args tool body) of
             (None, calls) \<Rightarrow> (NoResponse, calls)
           | (Some result, calls) \<Rightarrow>
               (Response \<lparr> http_status = 200, http_body = result_json result \<rparr>, calls)))"

definition endpoint :: "string \<Rightarrow> string" where
  "endpoint n = ''/api/'' @ map (\<lambda>c. if c = CHR ''_'' then CHR ''-'' else c) n"

text \<open>
  The routes registered at start-up, in order: one per registry entry whose name has a
  command in \<open>ToolToGkitCommandMap\<close>.
\<close>

definition routes :: "(string \<times> Tool \<times> jsvalue) list" where
  "routes =
     List.map_filter
       (\<lambda>tool. if truthy (command_for (tool_name tool))
               then Some (endpoint (tool_name tool), tool, the (command_for (tool_name tool)))
               else None)
       GkitCommands"

text \<open>
  How Express matches the path of a request against a registered path with its default
  settings: letter case is ignored and one trailing slash is accepted, so the route
  \<open>/api/approve-pr\<close> also serves \<open>/API/Approve-PR\<close> and \<open>/api/approve-pr/\<close>. The
  registered paths consist of lower-case letters, hyphens and slashes, so no character of
  them has a special meaning in the expression that Express builds.
\<close>

definition ascii_lower :: "char \<Rightarrow> char" where
  "ascii_lower c =
     (case map_of (zip ''ABCDEFGHIJKLMNOPQRSTUVWXYZ'' ''abcdefghijklmnopqrstuvwxyz'') c of
        None \<Rightarrow> c
      | Some l \<Rightarrow> l)"

definition path_matches :: "string \<Rightarrow> string \<Rightarrow> bool" where
  "path_matches registered path \<longleftrightarrow>
     map ascii_lower path = map ascii_lower registered
     \<or> map ascii_lower path = map ascii_lower registered @ ''/''"

text \<open>
  A POST request for a path (the path of the URL, without the query): the first route in
  the order of registration that matches it handles the request.
\<close>

definition http_post :: "spawner \<Rightarrow> string \<Rightarrow> jsobject \<Rightarrow> http_outcome \<times> spawn_call list" where
  "http_post spawn_child path body =
     (case find (\<lambda>route. path_matches (fst route) path) routes of
        None \<Rightarrow> (NoRoute, [])
      | Some (ep, tool, command) \<Rightarrow> post_handler spawn_child tool command body)"

section \<open>The tool-call handler of the MCP server\<close>

record mcp_response =
  content_text :: string
  isError :: bool

text \<open>
  The ways in which the handler can hit a \<open>TypeError\<close>: a property of \<open>undefined\<close> or
  of \<open>null\<close> is read, or something that is not a function is called.
\<close>

datatype js_fault = PropertyOfUndefined string | PropertyOfNull string | NotAFunction string

text \<open>
  What the handler needs from outside: the child processes, the message that the engine
  gives to a \<open>TypeError\<close>, and the answers of the two tools \<open>rv_pr\<close> and
  \<open>review_code\<close>, which depend on URL parsing, the GitHub API and the printing of JSON.
\<close>

record mcp_env =
  spawn_child :: spawner
  type_error_message :: "js_fault \<Rightarrow> string"
  advanced_tool :: "string \<Rightarrow> jsobject \<Rightarrow> mcp_response option \<times> spawn_call list"

text \<open>The \<open>catch\<close> block: the message of the error, prefixed.\<close>

definition caught :: "string \<Rightarrow> mcp_response" where
  "caught errorMessage = \<lparr> content_text = ''Error: '' @ errorMessage, isError = True \<rparr>"

text \<open>\<open>paramOrder.map(param => args[param]).filter(v => v !== undefined)\<close>.\<close>

definition gkitArgs :: "Tool \<Rightarrow> jsobject \<Rightarrow> jsvalue list" where
  "gkitArgs tool args = map the (filter (\<lambda>v. v \<noteq> None) (map (js_get args) (paramOrder tool)))"

definition advanced_names :: "string list" where
  "advanced_names = [''rv_pr'', ''review_code'', ''commit'']"

text \<open>
  \<open>executeCommand\<close>, the helper of the server's own tools: it spawns the command through
  a shell and resolves with both trimmed streams and \<open>code || 0\<close>.
\<close>

record command_result =
  cmd_stdout :: string
  cmd_stderr :: string
  cmd_exitCode :: int

definition executeCommand ::
  "spawner \<Rightarrow> string \<Rightarrow> jsvalue list \<Rightarrow> command_result option \<times> spawn_call list" where
  "executeCommand spawner command args =
     (map_option
        (\<lambda>p. \<lparr> cmd_stdout = trim (stdout p), cmd_stderr = trim (stderr p),
                cmd_exitCode = (case exit_code p of None \<Rightarrow> 0 | Some code \<Rightarrow> code) \<rparr>)
        (spawner command args),
      [(command, args)])"

text \<open>The \<open>join\<close> of an array of lines with a newline between them.\<close>

fun join_lines :: "string list \<Rightarrow> string" where
  "join_lines [] = []"
| "join_lines [l] = l"
| "join_lines (l # m # rest) = l @ [CHR 0x0A] @ join_lines (m # rest)"

text \<open>
  The case \<open>commit\<close> of the handler with \<open>suggestCommitMessage\<close>. The diff is read
  from the arguments unchecked; \<open>diff.toLowerCase()\<close> raises unless it is a string.
\<close>

definition commit_tool :: "mcp_env \<Rightarrow> jsobject \<Rightarrow> mcp_response option \<times> spawn_call list" where
  "commit_tool env args =
     (case js_get args ''diff'' of
        None \<Rightarrow> (Some (caught (type_error_message env (PropertyOfUndefined ''toLowerCase''))), [])
      | Some JNull \<Rightarrow> (Some (caught (type_error_message env (PropertyOfNull ''toLowerCase''))), [])
      | Some (JStr diff) \<Rightarrow>
          (let possibleType = (if js_includes (toLowerCase diff) ''fix'' then ''fix'' else ''feat'');
               summary = ''update based on diff'';
               commitMessage = possibleType @ '': '' @ summary
           in case executeCommand (spawn_child env) ''git'' [JStr ''commit'', JStr ''-m'', JStr commitMessage] of
                (None, calls) \<Rightarrow> (None, calls)
              | (Some commitResult, calls) \<Rightarrow>
                  (Some \<lparr> content_text =
                            join_lines
                              [''Suggested commit and result:'',
                               join_lines [''REVIEW:'', ''- Looks good.'', ''COMMIT:'', commitMessage],
                               ''---'',
                               ''Commit Message: '' @ commitMessage,
                               ''Exit Code: '' @ number_text (cmd_exitCode commitResult),
                               ''Stdout: '' @ (if cmd_stdout commitResult \<noteq> [] then cmd_stdout commitResult
                                               else ''(empty)''),
                               ''Stderr: '' @ (if cmd_stderr commitResult \<noteq> [] then cmd_stderr commitResult
                                               else ''(empty)'')],
                          isError = False \<rparr>, calls))
      | Some other \<Rightarrow> (Some (caught (type_error_message env (NotAFunction ''diff.toLowerCase''))), []))"

definition call_tool ::
  "mcp_env \<Rightarrow> string \<Rightarrow> jsobject option \<Rightarrow> mcp_response option \<times> spawn_call list" where
  "call_tool env n arguments =
     (case arguments of
        None \<Rightarrow> (Some \<lparr> content_text = ''Error: Invalid arguments provided'', isError = True \<rparr>, [])
      | Some args \<Rightarrow>
          if truthy (command_for n) then
            (case find (\<lambda>t. tool_name t = n) GkitCommands of
               None \<Rightarrow> (Some (caught (type_error_message env (PropertyOfUndefined ''inputSchema''))), [])
             | Some tool \<Rightarrow>
                 (case executeGkit (spawn_child env) (the (command_for n)) (gkitArgs tool args) of
                    (None, calls) \<Rightarrow> (None, calls)
                  | (Some result, calls) \<Rightarrow>
                      if \<not> res_success result
                      then (Some (caught (if res_error result \<noteq> [] then res_error result
                                          else res_output result)), calls)
                      else (Some \<lparr> content_text = res_output result, isError = False \<rparr>, calls)))
          else if n = ''rv_pr'' then advanced_tool env n args
          else if n = ''review_code'' then advanced_tool env n args
          else if n = ''commit'' then commit_tool env args
          else (Some (caught (''Unknown tool: '' @ n)), []))"

text \<open>An environment for concrete runs: the given children, V8's wording of the errors.\<close>

fun v8_message :: "js_fault \<Rightarrow> string" where
  "v8_message (PropertyOfUndefined p) =
     ''Cannot read properties of undefined (reading '' @ [CHR 0x27] @ p @ [CHR 0x27] @ '')''"
| "v8_message (PropertyOfNull p) =
     ''Cannot read properties of null (reading '' @ [CHR 0x27] @ p @ [CHR 0x27] @ '')''"
| "v8_message (NotAFunction e) = e @ '' is not a function''"

definition test_env :: "spawner \<Rightarrow> mcp_env" where
  "test_env sp =
     \<lparr> spawn_child = sp,
       type_error_message = v8_message,
       advanced_tool = (\<lambda>n args. (None, [])) \<rparr>"

section \<open>The diff review of the MCP server\<close>

text \<open>The class \<open>\w\<close> of a regular expression: letters, digits and the underscore.\<close>

definition is_word_char :: "char \<Rightarrow> bool" where
  "is_word_char c =
     (let n = (of_char c :: nat)
      in (48 \<le> n \<and> n \<le> 57) \<or> (65 \<le> n \<and> n \<le> 90) \<or> n = 95 \<or> (97 \<le> n \<and> n \<le> 122))"

text \<open>The characters that \<open>.\<close> does not match.\<close>

definition is_line_terminator :: "char \<Rightarrow> bool" where
  "is_line_terminator c \<longleftrightarrow> c \<in> set [CHR 0x0A, CHR 0x0D]"

text \<open>
  \<open>/\bany\b/\<close>: the word \<open>any\<close> with no word character directly before or after it.
  The first argument tells whether the character before the current position is a word
  character.
\<close>

fun word_any_from :: "bool \<Rightarrow> string \<Rightarrow> bool" where
  "word_any_from prev [] = False"
| "word_any_from prev (c # cs) =
     ((\<not> prev \<and> startsWith (c # cs) ''any''
        \<and> (case drop 3 (c # cs) of [] \<Rightarrow> True | d # _ \<Rightarrow> \<not> is_word_char d))
      \<or> word_any_from (is_word_char c) cs)"

definition matches_any_word :: "string \<Rightarrow> bool" where
  "matches_any_word s = word_any_from False s"

text \<open>
  \<open>/catch\s*\(.*\)\s*\{\s*\}/\<close>, in three pieces: \<open>\s*\{\s*\}\<close> at the start of a string,
  \<open>.*\)\<close> followed by it, and \<open>catch\s*\(\<close> followed by that; the expression matches
  when the last piece matches at some position. \<open>\s\<close> is the white space of \<open>trim\<close>.
\<close>

definition empty_block :: "string \<Rightarrow> bool" where
  "empty_block s =
     (case dropWhile is_js_space s of
        [] \<Rightarrow> False
      | c # r \<Rightarrow> c = CHR ''{'' \<and>
          (case dropWhile is_js_space r of [] \<Rightarrow> False | d # _ \<Rightarrow> d = CHR ''}''))"

fun paren_then_block :: "string \<Rightarrow> bool" where
  "paren_then_block [] = False"
| "paren_then_block (c # cs) =
     ((c = CHR '')'' \<and> empty_block cs) \<or> (\<not> is_line_terminator c \<and> paren_then_block cs))"

definition catch_here :: "string \<Rightarrow> bool" where
  "catch_here s \<longleftrightarrow>
     startsWith s ''catch'' \<and>
     (case dropWhile is_js_space (drop 5 s) of
        [] \<Rightarrow> False
      | c # r \<Rightarrow> c = CHR ''('' \<and> paren_then_block r)"

fun matches_empty_catch :: "string \<Rightarrow> bool" where
  "matches_empty_catch [] = False"
| "matches_empty_catch (c # cs) = (catch_here (c # cs) \<or> matches_empty_catch cs)"

record review =
  summary :: string
  issues :: "string list"
  rating :: int

text \<open>Each \<open>if (...) issues.push(...)\<close> of \<open>reviewCode\<close>.\<close>

definition push_if :: "bool \<Rightarrow> string \<Rightarrow> string list \<Rightarrow> string list" where
  "push_if cond issue acc = (if cond then acc @ [issue] else acc)"

definition reviewCode :: "string \<Rightarrow> review" where
  "reviewCode diff =
     (let lower = toLowerCase diff;
          i1 = push_if (js_includes diff ''console.log'') ''Remove console.log in production code.'' [];
          i2 = push_if (js_includes lower ''todo'' \<or> js_includes lower ''fixme'')
                 ''Resolve TODO/FIXME before merging.'' i1;
          i3 = push_if (js_includes lower ''password'' \<or> js_includes lower ''secret'')
                 ''Ensure secrets are not hard-coded.'' i2;
          i4 = push_if (matches_any_word diff) ''Avoid TypeScript any; prefer explicit types.'' i3;
          i5 = push_if (matches_empty_catch diff)
                 ''Avoid empty catch blocks; handle errors meaningfully.'' i4
      in \<lparr> summary = (if length i5 \<noteq> 0
                        then ''Basic static review found potential improvements.''
                        else ''No obvious issues detected by basic static review.''),
           issues = i5,
           rating = max 1 (10 - min (int (length i5)) 9) \<rparr>)"

section \<open>The shell script (gkit.sh)\<close>

text \<open>
  Strings of the shell are byte strings (UTF-8). An external program is the environment:
  \<open>world\<close> gives, for the number of programs started before it, its argument vector and
  the text piped into it, the exit status and what it wrote. The state records the
  programs started and the chunks written to the two output streams of the script.
  Shell builtins (\<open>echo\<close>, \<open>printf\<close>, \<open>command -v\<close>, \<open>read\<close>) start no program.
\<close>

record cmd_result =
  r_status :: nat
  r_stdout :: string
  r_stderr :: string

record proc =
  p_argv :: "string list"
  p_stdin :: string

record sh_state =
  s_procs :: "proc list"
  s_out :: "string list"
  s_err :: "string list"

text \<open>
  How a piece of script ends: it completes with a value (for a function, its return
  status), the shell exits with a status, or the shell waits for input for ever.
\<close>

datatype 'a flow = Next 'a sh_state | Exited nat sh_state | Waiting sh_state

text \<open>
  The functions of the script that only chain \<open>git\<close> and \<open>gh\<close> calls (\<open>gk_prs\<close>,
  \<open>gk_nb\<close>, \<open>gk_nbs\<close>, \<open>gk_nbh\<close>, \<open>gk_approve\<close>, \<open>gk_merge\<close>, \<open>gk_wf\<close>) are
  given by the environment as \<open>other_function\<close>.
\<close>

datatype target = Prs | Pr | Slack | Nb | Nbs | Nbh | Approve | Merge | Wf | Help | Unknown

record shell_env =
  script_name :: string
  SLACK_TOKEN :: string
  has_gh :: bool
  has_fzf :: bool
  has_jq :: bool
  stdin_lines :: "string list"
  stdin_blocks :: bool
  world :: "nat \<Rightarrow> proc \<Rightarrow> cmd_result"
  other_function :: "target \<Rightarrow> string list \<Rightarrow> sh_state \<Rightarrow> nat flow"

text \<open>The variables that the script exports before anything else.\<close>

definition DINH_SLACK_ID :: string where "DINH_SLACK_ID = ''U08TVVC6PL5''"
definition PHUONG_SLACK_ID :: string where "PHUONG_SLACK_ID = ''U08UAPSK14H''"
definition VINH_SLACK_ID :: string where "VINH_SLACK_ID = ''U08TR09LSEP''"
definition THY_SLACK_ID :: string where "THY_SLACK_ID = ''U08TS1P3JMC''"
definition PR_ROOM :: string where "PR_ROOM = ''C09E15YGCES''"

definition initial :: sh_state where
  "initial = \<lparr> s_procs = [], s_out = [], s_err = [] \<rparr>"

definition echo :: "string \<Rightarrow> sh_state \<Rightarrow> sh_state" where
  "echo line st = st\<lparr> s_out := s_out st @ [line @ [CHR 0x0A]] \<rparr>"

definition echo_err :: "string \<Rightarrow> sh_state \<Rightarrow> sh_state" where
  "echo_err line st = st\<lparr> s_err := s_err st @ [line @ [CHR 0x0A]] \<rparr>"

text \<open>A program in the foreground: its output goes to the streams of the script.\<close>

definition run_fg :: "(nat \<Rightarrow> proc \<Rightarrow> cmd_result) \<Rightarrow> string list \<Rightarrow> sh_state \<Rightarrow> nat \<times> sh_state" where
  "run_fg w argv st =
     (let p = \<lparr> p_argv = argv, p_stdin = [] \<rparr>; r = w (length (s_procs st)) p
      in (r_status r,
          st\<lparr> s_procs := s_procs st @ [p], s_out := s_out st @ [r_stdout r],
               s_err := s_err st @ [r_stderr r] \<rparr>))"

text \<open>The same with \<open>2>/dev/null\<close>.\<close>

definition run_quiet :: "(nat \<Rightarrow> proc \<Rightarrow> cmd_result) \<Rightarrow> string list \<Rightarrow> sh_state \<Rightarrow> nat \<times> sh_state" where
  "run_quiet w argv st =
     (let p = \<lparr> p_argv = argv, p_stdin = [] \<rparr>; r = w (length (s_procs st)) p
      in (r_status r, st\<lparr> s_procs := s_procs st @ [p], s_out := s_out st @ [r_stdout r] \<rparr>))"

text \<open>
  A command substitution \<open>$(...)\<close> whose last program is \<open>argv\<close>, fed with \<open>input\<close>: the
  value is the program's output without its trailing newlines.
\<close>

definition chomp :: "string \<Rightarrow> string" where
  "chomp s = rev (dropWhile (\<lambda>c. c = CHR 0x0A) (rev s))"

definition capture ::
  "(nat \<Rightarrow> proc \<Rightarrow> cmd_result) \<Rightarrow> string list \<Rightarrow> string \<Rightarrow> sh_state \<Rightarrow> (string \<times> nat) \<times> sh_state" where
  "capture w argv input st =
     (let p = \<lparr> p_argv = argv, p_stdin = input \<rparr>; r = w (length (s_procs st)) p
      in ((chomp (r_stdout r), r_status r),
          st\<lparr> s_procs := s_procs st @ [p], s_err := s_err st @ [r_stderr r] \<rparr>))"

text \<open>
  \<open>set -e\<close>: a simple command that fails ends the shell with its status. This covers a
  program in the foreground, an assignment \<open>var=$(...)\<close> on a line of its own, and the
  call of a function that returns a non-zero status.
\<close>

definition checked :: "nat \<times> sh_state \<Rightarrow> unit flow" where
  "checked r = (if fst r \<noteq> 0 then Exited (fst r) (snd r) else Next () (snd r))"

definition assigned :: "(string \<times> nat) \<times> sh_state \<Rightarrow> string flow" where
  "assigned r = (if snd (fst r) \<noteq> 0 then Exited (snd (fst r)) (snd r) else Next (fst (fst r)) (snd r))"

definition called :: "nat flow \<Rightarrow> nat flow" where
  "called f = (case f of
                 Next n st \<Rightarrow> if n \<noteq> 0 then Exited n st else Next 0 st
               | Exited n st \<Rightarrow> Exited n st
               | Waiting st \<Rightarrow> Waiting st)"

definition and_then :: "'a flow \<Rightarrow> ('a \<Rightarrow> sh_state \<Rightarrow> 'b flow) \<Rightarrow> 'b flow" where
  "and_then f k = (case f of
                     Next v st \<Rightarrow> k v st
                   | Exited n st \<Rightarrow> Exited n st
                   | Waiting st \<Rightarrow> Waiting st)"

text \<open>\<open>$1\<close>, \<open>$2\<close>, ...: empty when unset. \<open>$*\<close>: the arguments joined by spaces.\<close>

definition positional :: "nat \<Rightarrow> string list \<Rightarrow> string" where
  "positional i args = (if 0 < i \<and> i \<le> length args then args ! (i - 1) else [])"

fun all_args :: "string list \<Rightarrow> string" where
  "all_args [] = []"
| "all_args [a] = a"
| "all_args (a # b # rest) = a @ '' '' @ all_args (b # rest)"

definition check_deps :: "shell_env \<Rightarrow> sh_state \<Rightarrow> unit flow" where
  "check_deps env st0 =
     (let st1 = (if has_gh env then st0
                 else echo_err ([CHR 0xE2, CHR 0x9D, CHR 0x8C] @ '' '' @ [CHR 0x27] @ ''gh'' @ [CHR 0x27] @ '' (GitHub CLI) not found. Please install it.'') st0);
          st2 = (if has_fzf env then st1
                 else echo_err ([CHR 0xE2, CHR 0x9D, CHR 0x8C] @ '' '' @ [CHR 0x27] @ ''fzf'' @ [CHR 0x27] @ '' not found. Please install it.'') st1);
          st3 = (if has_jq env then st2
                 else echo_err ([CHR 0xE2, CHR 0x9D, CHR 0x8C] @ '' '' @ [CHR 0x27] @ ''jq'' @ [CHR 0x27] @ '' not found. Please install it.'') st2);
          missing = (\<not> has_gh env \<or> \<not> has_fzf env \<or> \<not> has_jq env);
          st4 = (if SLACK_TOKEN env \<noteq> [] \<and> PR_ROOM = []
                 then echo_err ([CHR 0xE2, CHR 0x9A, CHR 0xA0, CHR 0xEF, CHR 0xB8, CHR 0x8F] @ '' PR_ROOM is not set. Slack messages will not be sent.'') st3
                 else st3)
      in if missing then Exited 1 st4 else Next () st4)"

definition help_lines :: "shell_env \<Rightarrow> string list" where
  "help_lines env =
      [''Git & GitHub Helper Scripts'',
       [],
       ''Usage: '' @ script_name env @ '' <command> [arguments...]'',
       [],
       ''Commands:'',
       ''  pr <base> [title]           Create a PR to a specific base branch.'',
       ''  prs [remote] [title]        Create a PR to the latest release branch (staging).'',
       ''  nb <branch> [from] [remote] Create a new branch from '' @ [CHR 0x27] @ ''develop'' @ [CHR 0x27] @ '' (or [from]).'',
       ''  nbs <branch> [remote]       Create a new branch from the latest release branch.'',
       ''  nbh <branch> [from] [remote] Create a new branch from '' @ [CHR 0x27] @ ''main'' @ [CHR 0x27] @ '' (or [from]).'',
       ''  ap <pr_url>                 Approve a GitHub PR.'',
       ''  mg <pr_url>                 Approve and merge a GitHub PR (non-interactive, with optional workflow trigger).'',
       ''  wf <pr_url>                 Interactively trigger a GitHub Action workflow for a PR.'',
       ''  sl <message>                Send a message to a Slack channel.'',
       ''  help, -h, --help            Show this help message.'',
       [],
       ''Note: For Slack integration, ensure SLACK_TOKEN, PR_ROOM, and user SLACK_IDs are set in your environment.'']"

definition gk_help :: "shell_env \<Rightarrow> sh_state \<Rightarrow> sh_state" where
  "gk_help env st = fold echo (help_lines env) st"

definition curl_slack :: "string \<Rightarrow> string \<Rightarrow> string \<Rightarrow> string list" where
  "curl_slack token channel message =
     [''curl'', ''-s'', ''-X'', ''POST'', ''https://slack.com/api/chat.postMessage'',
      ''-H'', ''Authorization: Bearer '' @ token,
      ''-H'', ''Content-type: application/json'',
      ''--data'', (''{'' @ [CHR 0x22] @ ''channel'' @ [CHR 0x22] @ '':'' @ [CHR 0x22] @ channel @ [CHR 0x22] @ '','' @ [CHR 0x22] @ ''text'' @ [CHR 0x22] @ '':'' @ [CHR 0x22] @ message @ [CHR 0x22] @ ''}'')]"

definition gk_slack :: "shell_env \<Rightarrow> string list \<Rightarrow> sh_state \<Rightarrow> nat flow" where
  "gk_slack env args st0 =
     (if SLACK_TOKEN env = []
      then Next 1 (echo ([CHR 0xE2, CHR 0x9D, CHR 0x8C] @ '' SLACK_TOKEN not set. export SLACK_TOKEN='' @ [CHR 0x27] @ ''xoxb-xxxx'' @ [CHR 0x27]) st0)
      else if length args < 1
      then Next 1 (echo ''Usage: gk_slack <message>'' st0)
      else
        let st1 = echo (''Sending message to '' @ PR_ROOM @ '': '' @ all_args args) st0;
            channel = PR_ROOM;
            message = all_args args
        in and_then (assigned (capture (world env) (curl_slack (SLACK_TOKEN env) channel message) [] st1))
             (\<lambda>response st2.
                let (ok, st3) = capture (world env) [''jq'', ''-r'', ''.ok''] (response @ [CHR 0x0A]) st2
                in if fst ok = ''true''
                   then Next 0 (echo (([CHR 0xE2, CHR 0x9C, CHR 0x85] @ '' Sent to '' @ channel @ '': '' @ message)) st3)
                   else
                     let (err, st4) = capture (world env) [''jq'', ''-r'', ''.error''] (response @ [CHR 0x0A]) st3
                     in Next 0 (echo (([CHR 0xE2, CHR 0x9D, CHR 0x8C] @ '' Error: '') @ fst err) st4)))"

text \<open>
  The loop that waits until \<open>git diff --name-only --diff-filter=U\<close> prints nothing. Each
  round reads one line of the script's standard input; at end of input \<open>read\<close> fails and
  the shell exits with status 1, and on an input that stays open without data it waits.
  The prompt of \<open>read\<close> appears on a terminal only and is not recorded.
\<close>

fun await_resolution ::
  "(nat \<Rightarrow> proc \<Rightarrow> cmd_result) \<Rightarrow> bool \<Rightarrow> string list \<Rightarrow> sh_state \<Rightarrow> unit flow" where
  "await_resolution w blocks [] st =
     (let (unmerged, st1) = capture w [''git'', ''diff'', ''--name-only'', ''--diff-filter=U''] [] st
      in if fst unmerged = [] then Next () st1
         else if blocks then Waiting st1
         else Exited 1 st1)"
| "await_resolution w blocks (line # rest) st =
     (let (unmerged, st1) = capture w [''git'', ''diff'', ''--name-only'', ''--diff-filter=U''] [] st
      in if fst unmerged = [] then Next () st1
         else await_resolution w blocks rest st1)"

text \<open>The first part of \<open>gk_pr\<close>, run when the base is \<open>develop\<close>.\<close>

definition integration_branch :: "shell_env \<Rightarrow> sh_state \<Rightarrow> unit flow" where
  "integration_branch env st0 =
     and_then (assigned (capture (world env) [''git'', ''branch'', ''--show-current''] [] st0))
       (\<lambda>source_branch st1.
     and_then (assigned (capture (world env) [''date'', ''+%Y%m%d%H%M%S''] [] st1))
       (\<lambda>timestamp st2.
     let merge_branch = source_branch @ ''-to-develop-'' @ timestamp;
         st3 = echo (([CHR 0xF0, CHR 0x9F, CHR 0x8C, CHR 0xB1] @ '' Preparing integration branch: '' @ merge_branch @ '' (from origin/develop)'')) st2
     in
     and_then (checked (run_fg (world env) [''git'', ''fetch'', ''origin''] st3))
       (\<lambda>_ st4.
     and_then (checked (run_fg (world env) [''git'', ''checkout'', ''-b'', merge_branch, ''origin/develop''] st4))
       (\<lambda>_ st5.
     let st6 = echo (([CHR 0xF0, CHR 0x9F, CHR 0x94, CHR 0x80] @ '' Merging '' @ [CHR 0x27] @ source_branch @ [CHR 0x27] @ '' into '' @ [CHR 0x27] @ merge_branch @ [CHR 0x27])) st5;
         (merge_exit, st7) = run_fg (world env) [''git'', ''merge'', ''--no-ff'', ''--no-edit'', source_branch] st6
     in
     and_then
       (if merge_exit \<noteq> 0
        then
          and_then
            (await_resolution (world env) (stdin_blocks env) (stdin_lines env)
               (echo ''   After resolving, stage the changes and commit, then return here.''
                 (echo ([CHR 0xE2, CHR 0x9A, CHR 0xA0, CHR 0xEF, CHR 0xB8, CHR 0x8F] @ '' Merge conflicts detected. Please resolve them in another terminal/editor.'') st7)))
            (\<lambda>_ st8.
               let (continue_exit, st9) = run_quiet (world env) [''git'', ''merge'', ''--continue''] st8
               in Next () (echo ([CHR 0xE2, CHR 0x9C, CHR 0x85] @ '' Conflicts resolved. Continuing...'') st9))
        else Next () st7)
       (\<lambda>_ st10.
     and_then
       (checked (run_fg (world env) [''git'', ''push'', ''-u'', ''origin'', merge_branch]
          (echo (([CHR 0xF0, CHR 0x9F, CHR 0x93, CHR 0xA4] @ '' Pushing integration branch to origin: '' @ merge_branch)) st10)))
       (\<lambda>_ st11. Next () st11))))))"

definition slack_users :: "string list" where
  "slack_users =
     [([CHR 0xC4, CHR 0x90, CHR 0xE1, CHR 0xBB, CHR 0x8A] @ ''NH:'') @ DINH_SLACK_ID, (''PH'' @ [CHR 0xC6, CHR 0xAF, CHR 0xC6, CHR 0xA0] @ ''NG:'') @ PHUONG_SLACK_ID, ''VINH:'' @ VINH_SLACK_ID,
      ''THY:'' @ THY_SLACK_ID, ''NONE:'']"

text \<open>\<open>${selected_user#*:}\<close>: what follows the first colon.\<close>

definition after_colon :: "string \<Rightarrow> string" where
  "after_colon s = (case dropWhile (\<lambda>c. c \<noteq> CHR '':'') s of [] \<Rightarrow> s | c # rest \<Rightarrow> rest)"

definition pr_message :: "string \<Rightarrow> string \<Rightarrow> string \<Rightarrow> string \<Rightarrow> string \<Rightarrow> string \<Rightarrow> string \<Rightarrow> string" where
  "pr_message pr_url pr_number author repo_name current_branch base mention =
     ([CHR 0xF0, CHR 0x9F, CHR 0x9A, CHR 0x80] @ '' Pull request <'' @ pr_url @ ''|'' @ pr_number @ ''> created by *'' @ author @ ''* in '' @ [CHR 0x60] @ repo_name @ [CHR 0x60] @ '' '' @ [CHR 0x5C] @ ''n> Branch: '' @ [CHR 0x60] @ current_branch @ [CHR 0x60] @ '' to: '' @ [CHR 0x60] @ base @ [CHR 0x60] @ mention @ '' '' @ [CHR 0x5C] @ ''n'' @ [CHR 0x5C] @ ''n'' @ [CHR 0xF0, CHR 0x9F, CHR 0x92, CHR 0xAC] @ '' Please react after you approved or merged this PR'')"

definition gk_pr :: "shell_env \<Rightarrow> string list \<Rightarrow> sh_state \<Rightarrow> nat flow" where
  "gk_pr env args st0 =
     (let st1 = echo (''gk_pr '' @ positional 1 args @ '' '' @ positional 2 args) st0;
          st2 = echo ([CHR 0xF0, CHR 0x9F, CHR 0x94, CHR 0xA5] @ '' Start to create pull request'') st1;
          base = (if positional 1 args = [] then ''release'' else positional 1 args);
          title = positional 2 args
      in
      and_then (if base = ''develop'' then integration_branch env st2 else Next () st2)
        (\<lambda>_ st3.
      and_then
        (if title \<noteq> []
         then assigned (capture (world env) [''gh'', ''pr'', ''create'', ''--base'', base, ''--title'', title] []
                (echo (([CHR 0xF0, CHR 0x9F, CHR 0x94, CHR 0xA5] @ '' Create pull request with title: '' @ title)) st3))
         else assigned (capture (world env) [''gh'', ''pr'', ''create'', ''--base'', base, ''--fill''] []
                (echo ([CHR 0xF0, CHR 0x9F, CHR 0x94, CHR 0xA5] @ '' Create pull request with fill'') st3)))
        (\<lambda>pr_url st4.
      if pr_url \<noteq> []
      then
        and_then (assigned (capture (world env) [''git'', ''branch'', ''--show-current''] []
                   (echo (([CHR 0xE2, CHR 0x9C, CHR 0x85] @ '' Pull request created: '' @ pr_url @ '' '' @ [CHR 0xF0, CHR 0x9F, CHR 0x8E, CHR 0x89])) st4)))
          (\<lambda>current_branch st5.
        and_then (assigned (capture (world env) [''git'', ''config'', ''user.name''] [] st5))
          (\<lambda>author st6.
        and_then (assigned (capture (world env) [''grep'', ''-o'', (''[0-9]'' @ [CHR 0x5C] @ ''+$'')] (pr_url @ [CHR 0x0A]) st6))
          (\<lambda>pr_number st7.
        let (toplevel, st8) = capture (world env) [''git'', ''rev-parse'', ''--show-toplevel''] [] st7
        in
        and_then (assigned (capture (world env) [''basename'', fst toplevel] [] st8))
          (\<lambda>repo_name st9.
        and_then (assigned (capture (world env)
                   [''fzf'', ''--prompt=Select user to mention: '', ''--height=7'', ''--reverse'', ''--border'']
                   (concat (map (\<lambda>u. u @ [CHR 0x0A]) slack_users)) st9))
          (\<lambda>selected_user st10.
        if selected_user \<noteq> [] \<and> selected_user \<noteq> ''NONE:''
        then called (gk_slack env
               [pr_message pr_url pr_number author repo_name current_branch base
                  ('' <@'' @ after_colon selected_user @ ''>'')] st10)
        else called (gk_slack env
               [pr_message pr_url pr_number author repo_name current_branch base []] st10))))))
      else Next 1 (echo ([CHR 0xE2, CHR 0x9D, CHR 0x8C] @ '' Failed to create pull request.'') st4))))"

text \<open>The \<open>case\<close> of \<open>main\<close>: the first pattern that matches the command.\<close>

definition route :: "string \<Rightarrow> target" where
  "route COMMAND =
     (if COMMAND = ''prs'' then Prs
      else if COMMAND = ''pr'' then Pr
      else if COMMAND = ''sl'' \<or> COMMAND = ''slack'' then Slack
      else if COMMAND = ''nb'' then Nb
      else if COMMAND = ''nbs'' then Nbs
      else if COMMAND = ''nbh'' then Nbh
      else if COMMAND = ''ap'' \<or> COMMAND = ''approve'' then Approve
      else if COMMAND = ''mg'' \<or> COMMAND = ''merge'' then Merge
      else if COMMAND = ''wf'' then Wf
      else if COMMAND = ''help'' \<or> COMMAND = ''-h'' \<or> COMMAND = ''--help'' then Help
      else Unknown)"

text \<open>
  The script from \<open>main "$@"\<close> to its end. When the function called for the command
  returns, the shell exits with that status: at once under \<open>set -e\<close> when it is not zero,
  and with the end of the script otherwise.
\<close>

definition finish :: "nat flow \<Rightarrow> nat flow" where
  "finish f = (case f of
                 Next n st \<Rightarrow> Exited n st
               | Exited n st \<Rightarrow> Exited n st
               | Waiting st \<Rightarrow> Waiting st)"

definition main :: "shell_env \<Rightarrow> string list \<Rightarrow> nat flow" where
  "main env args =
     and_then (check_deps env initial)
       (\<lambda>_ st.
          if positional 1 args = [] then Exited 0 (gk_help env st)
          else
            let COMMAND = positional 1 args; rest = tl args
            in case route COMMAND of
                 Pr \<Rightarrow> finish (gk_pr env rest st)
               | Slack \<Rightarrow> finish (gk_slack env rest st)
               | Help \<Rightarrow> Exited 0 (gk_help env st)
               | Unknown \<Rightarrow>
                   Exited 1 (gk_help env (echo []
                     (echo_err (([CHR 0xE2, CHR 0x9D, CHR 0x8C] @ '' Error: Unknown command '' @ [CHR 0x27] @ COMMAND @ [CHR 0x27])) st)))
               | other \<Rightarrow> finish (other_function env other rest st))"

text \<open>
  An environment for concrete runs of the script: every dependency installed, standard
  input at its end, the other functions returning at once.
\<close>

definition shell_with :: "string \<Rightarrow> (nat \<Rightarrow> proc \<Rightarrow> cmd_result) \<Rightarrow> shell_env" where
  "shell_with token w =
     \<lparr> script_name = ''./gkit.sh'', SLACK_TOKEN = token,
       has_gh = True, has_fzf = True, has_jq = True,
       stdin_lines = [], stdin_blocks = False,
       world = w,
       other_function = (\<lambda>t args st. Next 0 st) \<rparr>"

definition prints :: "string \<Rightarrow> cmd_result" where
  "prints s = \<lparr> r_status = 0, r_stdout = s @ [CHR 0x0A], r_stderr = [] \<rparr>"

text \<open>
  A world in which a pull request is created: \<open>gh\<close> prints its URL, the \<open>git\<close> queries,
  \<open>grep\<close> and \<open>basename\<close> succeed, nobody is picked in \<open>fzf\<close>, and Slack answers the
  request with \<open>{"ok": false, "error": "channel_not_found"}\<close>.
\<close>

definition pr_world :: "nat \<Rightarrow> proc \<Rightarrow> cmd_result" where
  "pr_world k p =
     (if hd (p_argv p) = ''gh'' then prints ''https://github.com/o/r/pull/5''
      else if p_argv p = [''git'', ''branch'', ''--show-current''] then prints ''feature-x''
      else if p_argv p = [''git'', ''config'', ''user.name''] then prints ''dev''
      else if hd (p_argv p) = ''grep'' then prints ''5''
      else if p_argv p = [''git'', ''rev-parse'', ''--show-toplevel''] then prints ''/home/dev/r''
      else if hd (p_argv p) = ''basename'' then prints ''r''
      else if hd (p_argv p) = ''fzf'' then prints ''NONE:''
      else if hd (p_argv p) = ''curl''
      then prints (''{'' @ [CHR 0x22] @ ''ok'' @ [CHR 0x22] @ '':false,'' @ [CHR 0x22] @ ''error''
                   @ [CHR 0x22] @ '':'' @ [CHR 0x22] @ ''channel_not_found'' @ [CHR 0x22] @ ''}'')
      else if p_argv p = [''jq'', ''-r'', ''.ok''] then prints ''false''
      else if p_argv p = [''jq'', ''-r'', ''.error''] then prints ''channel_not_found''
      else prints [])"

text \<open>The exit status of a run that ended, and the state in which a run stopped.\<close>

fun exit_status :: "'a flow \<Rightarrow> nat option" where
  "exit_status (Exited n st) = Some n"
| "exit_status (Next v st) = None"
| "exit_status (Waiting st) = None"

fun final_state :: "'a flow \<Rightarrow> sh_state" where
  "final_state (Exited n st) = st"
| "final_state (Next v st) = st"
| "final_state (Waiting st) = st"

section \<open>Properties of trimming\<close>

lemma trim_decompose:
  "\<exists>l r. s = l @ trim s @ r \<and> (\<forall>c \<in> set l. is_js_space c) \<and> (\<forall>c \<in> set r. is_js_space c)"
proof -
  let ?a = "takeWhile is_js_space s"
  let ?m = "dropWhile is_js_space s"
  let ?b = "rev (takeWhile is_js_space (rev ?m))"
  have m: "?m = trim s @ ?b"
    unfolding trim_def by (metis rev_append rev_rev_ident takeWhile_dropWhile_id)
  have "s = ?a @ ?m" by simp
  with m have "s = ?a @ trim s @ ?b" by simp
  moreover have "\<forall>c \<in> set ?a. is_js_space c"
    by (meson set_takeWhileD)
  moreover have "\<forall>c \<in> set ?b. is_js_space c"
    using set_takeWhileD by fastforce
  ultimately show ?thesis by blast
qed

lemma trim_no_leading_space: "trim s \<noteq> [] \<Longrightarrow> \<not> is_js_space (hd (trim s))"
proof -
  assume ne: "trim s \<noteq> []"
  let ?m = "dropWhile is_js_space s"
  let ?d = "dropWhile is_js_space (rev ?m)"
  from ne have d: "?d \<noteq> []" by (simp add: trim_def)
  then have "rev ?m \<noteq> []" by (metis dropWhile.simps(1))
  then have mne: "?m \<noteq> []" by simp
  then have hm: "\<not> is_js_space (hd ?m)" by (rule hd_dropWhile)
  obtain t where t: "rev ?m = t @ ?d" 
    by (metis takeWhile_dropWhile_id)
  then have "?m = rev ?d @ rev t" by (metis rev_append rev_rev_ident)
  then have "?m = trim s @ rev t" by (simp add: trim_def)
  with ne have "hd ?m = hd (trim s)" by (metis hd_append2)
  with hm show ?thesis by simp
qed

lemma trim_no_trailing_space: "trim s \<noteq> [] \<Longrightarrow> \<not> is_js_space (last (trim s))"
proof -
  assume ne: "trim s \<noteq> []"
  let ?d = "dropWhile is_js_space (rev (dropWhile is_js_space s))"
  from ne have d: "?d \<noteq> []" by (simp add: trim_def)
  then have "\<not> is_js_space (hd ?d)" by (rule hd_dropWhile)
  moreover from d have "last (rev ?d) = hd ?d" by (simp add: last_rev)
  ultimately show ?thesis by (simp add: trim_def)
qed


section \<open>Argument marshaling\<close>

lemma push_params_filter:
  "push_params body ps acc = acc @ map (the \<circ> js_get body) (filter (\<lambda>p. js_get body p \<noteq> None) ps)"
  by (induction ps arbitrary: acc) (auto split: option.splits)

lemma http_args_filter:
  "http_args tool body = map (the \<circ> js_get body) (filter (\<lambda>p. js_get body p \<noteq> None) (paramOrder tool))"
  by (simp add: http_args_def push_params_filter)

lemma gkitArgs_filter:
  "gkitArgs tool args = map (the \<circ> js_get args) (filter (\<lambda>p. js_get args p \<noteq> None) (paramOrder tool))"
  by (simp add: gkitArgs_def filter_map comp_def)

lemma gkitArgs_http_args: "gkitArgs tool args = http_args tool args"
  by (simp add: gkitArgs_filter http_args_filter)

lemma filter_all_present: "\<forall>p \<in> set ps. P p \<Longrightarrow> filter P ps = ps"
  by (induction ps) auto

lemma present_shift:
  fixes body :: jsobject and ps qs rs :: "string list"
  assumes "js_get body p = None" and "js_get body q = Some v"
  defines "present \<equiv> (\<lambda>x. js_get body x \<noteq> None)"
  defines "out \<equiv> map (the \<circ> js_get body) (filter present (ps @ p # qs @ q # rs))"
  shows "length out < length (ps @ p # qs @ q # rs)"
    and "length (filter present (ps @ qs)) < length ps + 1 + length qs"
    and "out ! length (filter present (ps @ qs)) = v"
proof -
  have np: "\<not> present p" and pq: "present q"
    using assms by (simp_all add: present_def)
  have a: "length (filter present ps) \<le> length ps"
    and b: "length (filter present qs) \<le> length qs"
    and c: "length (filter present rs) \<le> length rs"
    by simp_all
  have "length out = length (filter present ps) + length (filter present qs) + 1 + length (filter present rs)"
    using np pq by (simp add: out_def)
  with a b c show "length out < length (ps @ p # qs @ q # rs)"
    by (simp del: length_filter_le)
  from a b show "length (filter present (ps @ qs)) < length ps + 1 + length qs"
    by (simp del: length_filter_le)
  have "out = map (the \<circ> js_get body) (filter present (ps @ qs)) @ v # map (the \<circ> js_get body) (filter present rs)"
    using np pq assms(2) by (simp add: out_def)
  then show "out ! length (filter present (ps @ qs)) = v"
    by (metis length_map nth_append_length)
qed

text \<open>
  C1. Both adapters walk the declared parameter names in order and append the value of each
  parameter that is present (not \<open>undefined\<close>); an absent parameter contributes nothing,
  neither a placeholder nor its default. When every declared parameter is present, the
  argument sequence has one entry per parameter, in declaration order. When a parameter is
  absent and a later one is present, the sequence is shorter than the declaration and the
  later value sits at an index below its declared position.
\<close>

theorem marshal_declared_order:
  fixes tool :: Tool and body :: jsobject
  defines "present \<equiv> (\<lambda>p. js_get body p \<noteq> None)"
  shows "http_args tool body = map (the \<circ> js_get body) (filter present (paramOrder tool))
       \<and> gkitArgs tool body = map (the \<circ> js_get body) (filter present (paramOrder tool))
       \<and> ((\<forall>p \<in> set (paramOrder tool). present p) \<longrightarrow>
            http_args tool body = map (the \<circ> js_get body) (paramOrder tool)
          \<and> length (http_args tool body) = length (paramOrder tool)
          \<and> (\<forall>i < length (paramOrder tool). Some (http_args tool body ! i) = js_get body (paramOrder tool ! i)))
       \<and> (\<forall>ps p qs q rs v.
            paramOrder tool = ps @ p # qs @ q # rs \<and> js_get body p = None \<and> js_get body q = Some v \<longrightarrow>
              length (http_args tool body) < length (paramOrder tool)
            \<and> length (filter present (ps @ qs)) < length ps + 1 + length qs
            \<and> http_args tool body ! length (filter present (ps @ qs)) = v)"
proof -
  have a: "http_args tool body = map (the \<circ> js_get body) (filter present (paramOrder tool))"
    by (simp add: http_args_filter present_def)
  have b: "gkitArgs tool body = map (the \<circ> js_get body) (filter present (paramOrder tool))"
    by (simp add: gkitArgs_filter present_def)
  have c: "http_args tool body = map (the \<circ> js_get body) (paramOrder tool)
          \<and> length (http_args tool body) = length (paramOrder tool)
          \<and> (\<forall>i < length (paramOrder tool). Some (http_args tool body ! i) = js_get body (paramOrder tool ! i))"
    if all: "\<forall>p \<in> set (paramOrder tool). present p"
  proof -
    from all have f: "filter present (paramOrder tool) = paramOrder tool"
      by (rule filter_all_present)
    have full: "http_args tool body = map (the \<circ> js_get body) (paramOrder tool)"
      using a f by simp
    have "Some (http_args tool body ! i) = js_get body (paramOrder tool ! i)"
      if i: "i < length (paramOrder tool)" for i
    proof -
      from i all have "present (paramOrder tool ! i)" by simp
      then show ?thesis using full i by (auto simp: present_def)
    qed
    then show ?thesis using full by simp
  qed
  have d: "length (http_args tool body) < length (paramOrder tool)
            \<and> length (filter present (ps @ qs)) < length ps + 1 + length qs
            \<and> http_args tool body ! length (filter present (ps @ qs)) = v"
    if h: "paramOrder tool = ps @ p # qs @ q # rs \<and> js_get body p = None \<and> js_get body q = Some v"
    for ps p qs q rs v
  proof -
    from h have o: "http_args tool body = map (the \<circ> js_get body) (filter (\<lambda>x. js_get body x \<noteq> None) (ps @ p # qs @ q # rs))"
      by (simp add: http_args_filter)
    from h have p: "js_get body p = None" and q: "js_get body q = Some v" by simp_all
    have "length (http_args tool body) < length (paramOrder tool)"
      using present_shift(1)[OF p q, of ps qs rs] h o by simp
    moreover have "length (filter present (ps @ qs)) < length ps + 1 + length qs"
      using present_shift(2)[OF p q, of ps qs] by (simp add: present_def)
    moreover have "http_args tool body ! length (filter present (ps @ qs)) = v"
      using present_shift(3)[OF p q, of ps qs rs] o by (simp add: present_def)
    ultimately show ?thesis by simp
  qed
  from a b c d show ?thesis by blast
qed

theorem marshal_declared_order_witness:
  "http_args (GkitCommands ! 2)
     (Map.empty(''branch'' \<mapsto> JStr ''feature-x'', ''from'' \<mapsto> JStr ''main'', ''remote'' \<mapsto> JStr ''upstream''))
     = [JStr ''feature-x'', JStr ''main'', JStr ''upstream'']
   \<and> http_args (GkitCommands ! 2)
     (Map.empty(''branch'' \<mapsto> JStr ''feature-x'', ''remote'' \<mapsto> JStr ''upstream''))
     = [JStr ''feature-x'', JStr ''upstream'']
   \<and> http_args (GkitCommands ! 2)
     (Map.empty(''branch'' \<mapsto> JStr ''feature-x'', ''remote'' \<mapsto> JStr ''upstream'')) ! 1 = JStr ''upstream''
   \<and> paramOrder (GkitCommands ! 2) ! 2 = ''remote''"
proof -
  let ?t = "GkitCommands ! 2"
  let ?full = "Map.empty(''branch'' \<mapsto> JStr ''feature-x'', ''from'' \<mapsto> JStr ''main'', ''remote'' \<mapsto> JStr ''upstream'')"
  let ?part = "Map.empty(''branch'' \<mapsto> JStr ''feature-x'', ''remote'' \<mapsto> JStr ''upstream'')"
  have po: "paramOrder ?t = [''branch'', ''from'', ''remote'']"
    by (simp add: GkitCommands_def paramOrder_def)
  have full: "\<forall>p \<in> set (paramOrder ?t). js_get ?full p \<noteq> None"
    by (simp add: po js_get_def)
  have "http_args ?t ?full = map (the \<circ> js_get ?full) (paramOrder ?t)"
    using marshal_declared_order[of ?t ?full] full by blast
  then have 1: "http_args ?t ?full = [JStr ''feature-x'', JStr ''main'', JStr ''upstream'']"
    by (simp add: po js_get_def)
  have split: "paramOrder ?t = [''branch''] @ ''from'' # [] @ ''remote'' # []
      \<and> js_get ?part ''from'' = None \<and> js_get ?part ''remote'' = Some (JStr ''upstream'')"
    by (simp add: po js_get_def object_prototype_keys_def)
  have "http_args ?t ?part ! length (filter (\<lambda>p. js_get ?part p \<noteq> None) ([''branch''] @ [])) = JStr ''upstream''"
    using marshal_declared_order[of ?t ?part] split by blast
  then have 3: "http_args ?t ?part ! 1 = JStr ''upstream''"
    by (simp add: js_get_def)
  have "http_args ?t ?part = map (the \<circ> js_get ?part) (filter (\<lambda>p. js_get ?part p \<noteq> None) (paramOrder ?t))"
    using marshal_declared_order[of ?t ?part] by blast
  then have 2: "http_args ?t ?part = [JStr ''feature-x'', JStr ''upstream'']"
    by (simp add: po js_get_def object_prototype_keys_def)
  from 1 2 3 po show ?thesis by simp
qed

section \<open>Facts about the registry\<close>

lemma registry_names:
  "map tool_name GkitCommands =
     [''create_pr'', ''create_pr_to_staging'', ''create_branch'', ''create_branch_from_staging'',
      ''create_hotfix_branch'', ''approve_pr'', ''merge_pr'', ''trigger_workflow'',
      ''send_slack_message'']"
  by (simp add: GkitCommands_def)

lemma map_keys_are_registry_names: "map fst ToolToGkitCommandMap = map tool_name GkitCommands"
  by (simp add: registry_names) (simp add: ToolToGkitCommandMap_def)

lemma registry_names_distinct: "distinct (map tool_name GkitCommands)"
  by (simp add: registry_names)

lemma find_by_key:
  "distinct (map f xs) \<Longrightarrow> x \<in> set xs \<Longrightarrow> find (\<lambda>t. f t = f x) xs = Some x"
  by (induction xs) (auto simp: image_iff)

lemma find_registry_tool:
  "tool \<in> set GkitCommands \<Longrightarrow> find (\<lambda>t. tool_name t = tool_name tool) GkitCommands = Some tool"
  by (rule find_by_key [OF registry_names_distinct])

lemma command_for_own:
  "\<forall>kv \<in> set ToolToGkitCommandMap. command_for (fst kv) = Some (JStr (snd kv)) \<and> snd kv \<noteq> []"
  by (simp add: ToolToGkitCommandMap_def command_for_def js_get_def)

lemma command_for_registry:
  assumes "tool \<in> set GkitCommands"
  shows "\<exists>c. command_for (tool_name tool) = Some (JStr c) \<and> c \<noteq> [] \<and> (tool_name tool, c) \<in> set ToolToGkitCommandMap"
proof -
  from assms have "tool_name tool \<in> set (map fst ToolToGkitCommandMap)"
    by (simp add: map_keys_are_registry_names)
  then obtain c where c: "(tool_name tool, c) \<in> set ToolToGkitCommandMap" by auto
  with command_for_own show ?thesis by fastforce
qed

lemma truthy_command_for_registry:
  "tool \<in> set GkitCommands \<Longrightarrow> truthy (command_for (tool_name tool))"
  using command_for_registry by fastforce

lemma command_for_unknown:
  assumes "n \<notin> set (map tool_name GkitCommands)"
  shows "command_for n = (if n \<in> set object_prototype_keys then Some JNative else None)"
proof -
  from assms have "n \<notin> fst ` set ToolToGkitCommandMap"
    using map_keys_are_registry_names by (metis set_map)
  then have "map_of (map (\<lambda>(k, v). (k, JStr v)) ToolToGkitCommandMap) n = None"
    by (force simp: map_of_eq_None_iff)
  then show ?thesis by (simp add: command_for_def js_get_def)
qed

lemma routes_all:
  "routes = map (\<lambda>tool. (endpoint (tool_name tool), tool, the (command_for (tool_name tool)))) GkitCommands"
proof -
  have "List.map_filter (\<lambda>tool. if truthy (command_for (tool_name tool))
               then Some (endpoint (tool_name tool), tool, the (command_for (tool_name tool)))
               else None) xs
        = map (\<lambda>tool. (endpoint (tool_name tool), tool, the (command_for (tool_name tool)))) xs"
    if "set xs \<subseteq> set GkitCommands" for xs
    using that by (induction xs) (simp_all add: List.map_filter_simps truthy_command_for_registry)
  then show ?thesis by (simp add: routes_def)
qed

lemma endpoints_distinct: "distinct (map (endpoint \<circ> tool_name) GkitCommands)"
  using registry_names by (simp add: endpoint_def flip: map_map)

lemma registry_endpoints_plain:
  assumes "t \<in> set GkitCommands"
  shows "map ascii_lower (endpoint (tool_name t)) = endpoint (tool_name t)"
    and "last (endpoint (tool_name t)) \<noteq> CHR ''/''"
proof -
  have "\<forall>n \<in> set (map tool_name GkitCommands).
          map ascii_lower (endpoint n) = endpoint n \<and> last (endpoint n) \<noteq> CHR ''/''"
    unfolding registry_names by (simp add: endpoint_def ascii_lower_def)
  with assms show "map ascii_lower (endpoint (tool_name t)) = endpoint (tool_name t)"
    and "last (endpoint (tool_name t)) \<noteq> CHR ''/''"
    by simp_all
qed

lemma path_matches_refl: "path_matches e e"
  by (simp add: path_matches_def)

lemma matches_same_route:
  assumes "map ascii_lower a = a" and "last a \<noteq> CHR ''/''"
    and "map ascii_lower b = b" and "last b \<noteq> CHR ''/''"
    and "path_matches a path" and "path_matches b path"
  shows "a = b"
proof -
  from assms(1,5) have a: "map ascii_lower path = a \<or> map ascii_lower path = a @ ''/''"
    by (simp add: path_matches_def)
  from assms(3,6) have b: "map ascii_lower path = b \<or> map ascii_lower path = b @ ''/''"
    by (simp add: path_matches_def)
  from a b consider "a = b" | "a = b @ ''/''" | "b = a @ ''/''"
    by auto
  then show ?thesis
    using assms(2,4) by cases auto
qed

lemma find_first_match:
  assumes "x \<in> set xs" and "P x" and "\<forall>y \<in> set xs. P y \<longrightarrow> y = x"
  shows "find P xs = Some x"
proof -
  from assms(1,2) have "find P xs \<noteq> None"
    by (auto simp: find_None_iff)
  then obtain y where y: "find P xs = Some y" by blast
  then obtain i where "i < length xs" "P (xs ! i)" "y = xs ! i"
    unfolding find_Some_iff by blast
  then have "y \<in> set xs" "P y" by simp_all
  with assms(3) have "y = x" by blast
  with y show ?thesis by simp
qed

lemma find_route:
  assumes "tool \<in> set GkitCommands" and "path_matches (endpoint (tool_name tool)) path"
  shows "find (\<lambda>route. path_matches (fst route) path) routes
           = Some (endpoint (tool_name tool), tool, the (command_for (tool_name tool)))"
proof -
  let ?r = "\<lambda>tool. (endpoint (tool_name tool), tool, the (command_for (tool_name tool)))"
  have m: "?r tool \<in> set routes" using assms(1) by (simp add: routes_all)
  have p: "path_matches (fst (?r tool)) path" using assms(2) by simp
  have u: "\<forall>y \<in> set routes. path_matches (fst y) path \<longrightarrow> y = ?r tool"
  proof (intro ballI impI)
    fix y assume y: "y \<in> set routes" and my: "path_matches (fst y) path"
    from y obtain t where t: "t \<in> set GkitCommands" "y = ?r t"
      by (auto simp: routes_all)
    from my t have mt: "path_matches (endpoint (tool_name t)) path" by simp
    have "endpoint (tool_name t) = endpoint (tool_name tool)"
      by (rule matches_same_route
          [OF registry_endpoints_plain [OF t(1)] registry_endpoints_plain [OF assms(1)] mt assms(2)])
    moreover have "inj_on (endpoint \<circ> tool_name) (set GkitCommands)"
      using endpoints_distinct by (simp add: distinct_map)
    ultimately have "t = tool"
      using t(1) assms(1) by (auto simp: inj_on_def)
    with t(2) show "y = ?r tool" by simp
  qed
  show ?thesis by (rule find_first_match [OF m p u])
qed

lemma no_route:
  assumes "\<forall>t \<in> set GkitCommands. \<not> path_matches (endpoint (tool_name t)) path"
  shows "find (\<lambda>route. path_matches (fst route) path) routes = None"
  using assms by (auto simp: routes_all find_None_iff)

section \<open>The invoker's result\<close>

text \<open>
  C4, as stated, fails in its last part: the result does not carry the exit code. Two
  children that differ only in a non-zero exit code produce the same result.
\<close>

theorem executeGkit_drops_exit_code:
  "executeGkit (child_closing 1 [] ''fatal'') (JStr ''pr'') []
     = executeGkit (child_closing 2 [] ''fatal'') (JStr ''pr'') []
   \<and> child_closing 1 [] ''fatal'' ''./gkit.sh'' [JStr ''pr'']
     \<noteq> child_closing 2 [] ''fatal'' ''./gkit.sh'' [JStr ''pr'']"
  by (simp add: executeGkit_def child_closing_def on_close_def)

text \<open>
  C4, amended. When the child closes, the invoker spawns exactly one process and returns a
  result whose success flag is true if and only if the exit code is 0, whose output is the
  captured standard output without its leading and trailing white space, and whose error
  is the captured standard error trimmed likewise. The result has these three fields only:
  it depends on the exit code through the success flag alone.
\<close>

theorem executeGkit_result:
  assumes "sp ''./gkit.sh'' (command # args) = Some p"
  shows "\<exists>r. executeGkit sp command args = (Some r, [(''./gkit.sh'', command # args)])
       \<and> (res_success r \<longleftrightarrow> exit_code p = Some 0)
       \<and> res_output r = trim (stdout p)
       \<and> (\<exists>l t. stdout p = l @ res_output r @ t \<and> (\<forall>c \<in> set l. is_js_space c) \<and> (\<forall>c \<in> set t. is_js_space c))
       \<and> (res_output r \<noteq> [] \<longrightarrow> \<not> is_js_space (hd (res_output r)) \<and> \<not> is_js_space (last (res_output r)))
       \<and> res_error r = trim (stderr p)
       \<and> (\<exists>l t. stderr p = l @ res_error r @ t \<and> (\<forall>c \<in> set l. is_js_space c) \<and> (\<forall>c \<in> set t. is_js_space c))
       \<and> (res_error r \<noteq> [] \<longrightarrow> \<not> is_js_space (hd (res_error r)) \<and> \<not> is_js_space (last (res_error r)))
       \<and> (\<forall>p'. stdout p' = stdout p \<and> stderr p' = stderr p
               \<and> (exit_code p' = Some 0 \<longleftrightarrow> exit_code p = Some 0) \<longrightarrow> on_close p' = r)"
proof -
  let ?r = "on_close p"
  have e: "executeGkit sp command args = (Some ?r, [(''./gkit.sh'', command # args)])"
    using assms by (simp add: executeGkit_def)
  have s: "res_success ?r \<longleftrightarrow> exit_code p = Some 0"
    and o: "res_output ?r = trim (stdout p)"
    and r: "res_error ?r = trim (stderr p)"
    by (simp_all add: on_close_def)
  have same: "\<forall>p'. stdout p' = stdout p \<and> stderr p' = stderr p
               \<and> (exit_code p' = Some 0 \<longleftrightarrow> exit_code p = Some 0) \<longrightarrow> on_close p' = ?r"
    by (simp add: on_close_def)
  have od: "\<exists>l t. stdout p = l @ res_output ?r @ t \<and> (\<forall>c \<in> set l. is_js_space c) \<and> (\<forall>c \<in> set t. is_js_space c)"
    unfolding o by (rule trim_decompose)
  have oe: "res_output ?r \<noteq> [] \<longrightarrow> \<not> is_js_space (hd (res_output ?r)) \<and> \<not> is_js_space (last (res_output ?r))"
    unfolding o using trim_no_leading_space trim_no_trailing_space by blast
  have rd: "\<exists>l t. stderr p = l @ res_error ?r @ t \<and> (\<forall>c \<in> set l. is_js_space c) \<and> (\<forall>c \<in> set t. is_js_space c)"
    unfolding r by (rule trim_decompose)
  have re: "res_error ?r \<noteq> [] \<longrightarrow> \<not> is_js_space (hd (res_error ?r)) \<and> \<not> is_js_space (last (res_error ?r))"
    unfolding r using trim_no_leading_space trim_no_trailing_space by blast
  from e s o od oe r rd re same show ?thesis
    by (intro exI[of _ ?r] conjI)
qed

theorem executeGkit_result_witness:
  "child_closing 0 ''PR created: https://github.com/o/r/pull/5'' [] ''./gkit.sh'' [JStr ''pr''] =
     Some \<lparr> exit_code = Some 0, stdout = ''PR created: https://github.com/o/r/pull/5'', stderr = [] \<rparr>
   \<and> fst (executeGkit (child_closing 0 ''PR created: https://github.com/o/r/pull/5'' []) (JStr ''pr'') [])
     = Some \<lparr> res_success = True, res_output = ''PR created: https://github.com/o/r/pull/5'', res_error = [] \<rparr>"
proof -
  let ?sp = "child_closing 0 ''PR created: https://github.com/o/r/pull/5'' []"
  have h: "?sp ''./gkit.sh'' (JStr ''pr'' # []) =
     Some \<lparr> exit_code = Some 0, stdout = ''PR created: https://github.com/o/r/pull/5'', stderr = [] \<rparr>"
    by (simp add: child_closing_def)
  have t: "trim ''PR created: https://github.com/o/r/pull/5'' = ''PR created: https://github.com/o/r/pull/5''"
    by (simp add: trim_def is_js_space_def)
  from executeGkit_result [of ?sp "JStr ''pr''" "[]", OF h]
  obtain r where r: "executeGkit ?sp (JStr ''pr'') [] = (Some r, [(''./gkit.sh'', [JStr ''pr''])])"
    and s: "res_success r \<longleftrightarrow> exit_code \<lparr> exit_code = Some 0, stdout = ''PR created: https://github.com/o/r/pull/5'', stderr = [] \<rparr> = Some 0"
    and o: "res_output r = trim (stdout \<lparr> exit_code = Some 0, stdout = ''PR created: https://github.com/o/r/pull/5'', stderr = [] \<rparr>)"
    and e: "res_error r = trim (stderr \<lparr> exit_code = Some 0, stdout = ''PR created: https://github.com/o/r/pull/5'', stderr = [] \<rparr>)"
    by blast
  from s o e have "r = \<lparr> res_success = True, res_output = ''PR created: https://github.com/o/r/pull/5'', res_error = [] \<rparr>"
    by (cases r) (simp add: t, simp add: trim_def)
  with r h show ?thesis by simp
qed

section \<open>Required parameters in the HTTP adapter\<close>

lemma missing_required_first:
  assumes "p \<in> set (tool_required tool)" and "js_get body p = None"
  shows "\<exists>q i. missing_required tool body = Some q \<and> i < length (tool_required tool)
           \<and> tool_required tool ! i = q \<and> js_get body q = None
           \<and> (\<forall>j < i. js_get body (tool_required tool ! j) \<noteq> None)"
proof -
  from assms have "find (\<lambda>param. js_get body param = None) (tool_required tool) \<noteq> None"
    by (auto simp: find_None_iff)
  then obtain q where q: "find (\<lambda>param. js_get body param = None) (tool_required tool) = Some q"
    by blast
  then obtain i where "i < length (tool_required tool)" "js_get body (tool_required tool ! i) = None"
    "q = tool_required tool ! i" "\<forall>j < i. js_get body (tool_required tool ! j) \<noteq> None"
    unfolding find_Some_iff by blast
  with q show ?thesis by (auto simp: missing_required_def)
qed

lemma http_post_matching:
  assumes "tool \<in> set GkitCommands" and "(tool_name tool, c) \<in> set ToolToGkitCommandMap"
    and "path_matches (endpoint (tool_name tool)) path"
  shows "http_post sp path body = post_handler sp tool (JStr c) body"
proof -
  from command_for_own assms(2) have "command_for (tool_name tool) = Some (JStr c)"
    by fastforce
  then show ?thesis
    by (simp add: http_post_def find_route [OF assms(1,3)])
qed

lemma http_post_registry:
  assumes "tool \<in> set GkitCommands" and "(tool_name tool, c) \<in> set ToolToGkitCommandMap"
  shows "http_post sp (endpoint (tool_name tool)) body = post_handler sp tool (JStr c) body"
  by (rule http_post_matching [OF assms path_matches_refl])

text \<open>
  C2, as stated, fails: a required parameter whose entry is the empty string is not
  rejected. The request \<open>POST /api/approve-pr\<close> with body \<open>{"pr_url": ""}\<close> is answered
  with status 200 after a subprocess has been spawned.
\<close>

theorem empty_required_value_not_rejected:
  "http_post (child_closing 0 [] []) ''/api/approve-pr'' (Map.empty(''pr_url'' \<mapsto> JStr []))
     = (Response \<lparr> http_status = 200,
                    http_body = JObj [(''success'', JBool True), (''output'', JStr []), (''error'', JStr [])] \<rparr>,
        [(''./gkit.sh'', [JStr ''ap'', JStr []])])"
proof -
  let ?tool = "GkitCommands ! 5"
  have t: "?tool \<in> set GkitCommands" by (simp add: GkitCommands_def)
  have n: "tool_name ?tool = ''approve_pr''" "tool_required ?tool = [''pr_url'']"
    "paramOrder ?tool = [''pr_url'']"
    by (simp_all add: GkitCommands_def paramOrder_def)
  have c: "(tool_name ?tool, ''ap'') \<in> set ToolToGkitCommandMap"
    by (simp add: n ToolToGkitCommandMap_def)
  have e: "endpoint (tool_name ?tool) = ''/api/approve-pr''"
    by (simp add: n endpoint_def)
  have "post_handler (child_closing 0 [] []) ?tool (JStr ''ap'') (Map.empty(''pr_url'' \<mapsto> JStr []))
     = (Response \<lparr> http_status = 200,
                    http_body = JObj [(''success'', JBool True), (''output'', JStr []), (''error'', JStr [])] \<rparr>,
        [(''./gkit.sh'', [JStr ''ap'', JStr []])])"
    by (simp add: post_handler_def missing_required_def n js_get_def http_args_def executeGkit_def
        child_closing_def on_close_def result_json_def trim_def)
  with http_post_registry [OF t c] e show ?thesis by simp
qed

text \<open>
  C2, amended. In the HTTP adapter, for every command, when some required parameter is
  absent from the request body (its value is \<open>undefined\<close>), the request is answered with
  status 400 and a JSON body \<open>{success: false, error: "Parameter '<name>' is required"}\<close>
  that names the first absent parameter of the required list; no argument sequence is
  built and no subprocess is spawned. This holds for the handler of any command and for
  the route of every registry entry.
\<close>

theorem required_parameter_rejected:
  assumes "p \<in> set (tool_required tool)" and "js_get body p = None"
  shows "\<exists>q i. i < length (tool_required tool) \<and> tool_required tool ! i = q
           \<and> js_get body q = None
           \<and> (\<forall>j < i. js_get body (tool_required tool ! j) \<noteq> None)
           \<and> post_handler sp tool command body
               = (Response \<lparr> http_status = 400,
                    http_body = JObj [(''success'', JBool False),
                      (''error'', JStr (''Parameter '' @ [CHR 0x27] @ q @ [CHR 0x27] @ '' is required''))] \<rparr>, [])
           \<and> (tool \<in> set GkitCommands \<longrightarrow>
                http_post sp (endpoint (tool_name tool)) body
                  = (Response \<lparr> http_status = 400, http_body = required_error q \<rparr>, []))"
proof -
  from missing_required_first [OF assms]
  obtain q i where q: "missing_required tool body = Some q" "i < length (tool_required tool)"
    "tool_required tool ! i = q" "js_get body q = None"
    "\<forall>j < i. js_get body (tool_required tool ! j) \<noteq> None"
    by blast
  have h: "post_handler sp tool command body
             = (Response \<lparr> http_status = 400, http_body = required_error q \<rparr>, [])" for command
    using q(1) by (simp add: post_handler_def)
  have r: "http_post sp (endpoint (tool_name tool)) body
             = (Response \<lparr> http_status = 400, http_body = required_error q \<rparr>, [])"
    if t: "tool \<in> set GkitCommands"
  proof -
    from command_for_registry [OF t] obtain c where "(tool_name tool, c) \<in> set ToolToGkitCommandMap"
      by blast
    from http_post_registry [OF t this] h show ?thesis by simp
  qed
  from q h r show ?thesis
    unfolding required_error_def by blast
qed

theorem required_parameter_rejected_witness:
  "''pr_url'' \<in> set (tool_required (GkitCommands ! 5))
   \<and> js_get Map.empty ''pr_url'' = None
   \<and> GkitCommands ! 5 \<in> set GkitCommands
   \<and> http_post (child_closing 0 [] []) ''/api/approve-pr'' Map.empty
      = (Response \<lparr> http_status = 400,
           http_body = JObj [(''success'', JBool False),
             (''error'', JStr (''Parameter '' @ [CHR 0x27] @ ''pr_url'' @ [CHR 0x27] @ '' is required''))] \<rparr>, [])"
proof -
  let ?tool = "GkitCommands ! 5"
  have t: "?tool \<in> set GkitCommands" by (simp add: GkitCommands_def)
  have n: "tool_name ?tool = ''approve_pr''" "tool_required ?tool = [''pr_url'']"
    by (simp_all add: GkitCommands_def)
  have a: "''pr_url'' \<in> set (tool_required ?tool)" by (simp add: n)
  have b: "js_get Map.empty ''pr_url'' = None" by (simp add: js_get_def object_prototype_keys_def)
  have e: "endpoint (tool_name ?tool) = ''/api/approve-pr''"
    by (simp add: n endpoint_def)
  from required_parameter_rejected [OF a b, of "child_closing 0 [] []" "JStr ''ap''"] t
  obtain q where "q \<in> set (tool_required ?tool)"
    "http_post (child_closing 0 [] []) (endpoint (tool_name ?tool)) Map.empty
                  = (Response \<lparr> http_status = 400, http_body = required_error q \<rparr>, [])"
    by (metis nth_mem)
  then show ?thesis using a b t e by (simp add: n required_error_def)
qed

section \<open>Responses of the two adapters after an invocation\<close>

lemma missing_required_none:
  "missing_required tool body = None \<longleftrightarrow> (\<forall>p \<in> set (tool_required tool). js_get body p \<noteq> None)"
  by (auto simp: missing_required_def find_None_iff)

text \<open>
  C5. For every registry command and every request body in which each required parameter
  is present, once the child has closed the HTTP adapter answers with status 200 and the
  invocation result as JSON body, whatever the exit code was: success or failure is told
  by the \<open>success\<close> field alone.
\<close>

theorem http_status_200_regardless:
  assumes "tool \<in> set GkitCommands"
    and "(tool_name tool, c) \<in> set ToolToGkitCommandMap"
    and "\<forall>p \<in> set (tool_required tool). js_get body p \<noteq> None"
    and "sp ''./gkit.sh'' (JStr c # http_args tool body) = Some p"
  shows "http_post sp (endpoint (tool_name tool)) body
           = (Response \<lparr> http_status = 200,
                http_body = JObj [(''success'', JBool (exit_code p = Some 0)),
                                  (''output'', JStr (trim (stdout p))),
                                  (''error'', JStr (trim (stderr p)))] \<rparr>,
              [(''./gkit.sh'', JStr c # http_args tool body)])"
proof -
  from assms(3) have m: "missing_required tool body = None"
    by (simp add: missing_required_none)
  have "post_handler sp tool (JStr c) body
           = (Response \<lparr> http_status = 200, http_body = result_json (on_close p) \<rparr>,
              [(''./gkit.sh'', JStr c # http_args tool body)])"
    using m assms(4) by (simp add: post_handler_def executeGkit_def)
  then show ?thesis
    using http_post_registry [OF assms(1,2)] by (simp add: result_json_def on_close_def)
qed

theorem http_status_200_regardless_witness:
  "GkitCommands ! 0 \<in> set GkitCommands
   \<and> (tool_name (GkitCommands ! 0), ''pr'') \<in> set ToolToGkitCommandMap
   \<and> tool_required (GkitCommands ! 0) = []
   \<and> child_closing 1 [] ''not a git repository'' ''./gkit.sh'' (JStr ''pr'' # http_args (GkitCommands ! 0) Map.empty)
       = Some \<lparr> exit_code = Some 1, stdout = [], stderr = ''not a git repository'' \<rparr>
   \<and> http_post (child_closing 1 [] ''not a git repository'') ''/api/create-pr'' Map.empty
       = (Response \<lparr> http_status = 200,
            http_body = JObj [(''success'', JBool False), (''output'', JStr []),
                              (''error'', JStr ''not a git repository'')] \<rparr>,
          [(''./gkit.sh'', [JStr ''pr''])])"
proof -
  let ?tool = "GkitCommands ! 0"
  let ?sp = "child_closing 1 [] ''not a git repository''"
  let ?p = "\<lparr> exit_code = Some 1, stdout = [], stderr = ''not a git repository'' \<rparr>"
  have t: "?tool \<in> set GkitCommands" by (simp add: GkitCommands_def)
  have n: "tool_name ?tool = ''create_pr''" "tool_required ?tool = []"
    "paramOrder ?tool = [''base'', ''title'']"
    by (simp_all add: GkitCommands_def paramOrder_def)
  have c: "(tool_name ?tool, ''pr'') \<in> set ToolToGkitCommandMap"
    by (simp add: n ToolToGkitCommandMap_def)
  have r: "\<forall>p \<in> set (tool_required ?tool). js_get Map.empty p \<noteq> None"
    by (simp add: n)
  have a: "http_args ?tool Map.empty = []"
    by (simp add: http_args_def n js_get_def object_prototype_keys_def)
  have s: "?sp ''./gkit.sh'' (JStr ''pr'' # http_args ?tool Map.empty) = Some ?p"
    by (simp add: child_closing_def)
  have e: "endpoint (tool_name ?tool) = ''/api/create-pr''"
    by (simp add: n endpoint_def)
  have tr: "trim ''not a git repository'' = ''not a git repository''" "trim [] = []"
    by (simp_all add: trim_def is_js_space_def)
  from http_status_200_regardless [of ?tool "''pr''" Map.empty ?sp ?p, OF t c r s]
  have "http_post ?sp ''/api/create-pr'' Map.empty
       = (Response \<lparr> http_status = 200,
            http_body = JObj [(''success'', JBool False), (''output'', JStr []),
                              (''error'', JStr ''not a git repository'')] \<rparr>,
          [(''./gkit.sh'', [JStr ''pr''])])"
    by (simp add: e a tr)
  with t c n(2) s show ?thesis by blast
qed

section \<open>The tool-call handler on registry tools\<close>

lemma call_tool_registry:
  assumes "tool \<in> set GkitCommands" and "(tool_name tool, c) \<in> set ToolToGkitCommandMap"
  shows "call_tool env (tool_name tool) (Some args) =
     (case executeGkit (spawn_child env) (JStr c) (gkitArgs tool args) of
        (None, calls) \<Rightarrow> (None, calls)
      | (Some result, calls) \<Rightarrow>
          if \<not> res_success result
          then (Some (caught (if res_error result \<noteq> [] then res_error result
                              else res_output result)), calls)
          else (Some \<lparr> content_text = res_output result, isError = False \<rparr>, calls))"
proof -
  from command_for_own assms(2) have c: "command_for (tool_name tool) = Some (JStr c)" "c \<noteq> []"
    by fastforce+
  then show ?thesis
    by (simp add: call_tool_def find_registry_tool [OF assms(1)])
qed

text \<open>
  C6. For every registry-mapped tool and every argument object, once the child has closed:
  a zero exit code makes the handler return the captured output as a result that is not an
  error; any other exit makes it return an error result (\<open>isError\<close>) whose text is
  \<open>Error: \<close> followed by the captured standard error, or by the captured output when the
  standard error is empty.
\<close>

theorem mcp_nonzero_exit_is_error:
  assumes "tool \<in> set GkitCommands"
    and "(tool_name tool, c) \<in> set ToolToGkitCommandMap"
    and "spawn_child env ''./gkit.sh'' (JStr c # gkitArgs tool args) = Some p"
  shows "call_tool env (tool_name tool) (Some args) =
     (Some (if exit_code p = Some 0
            then \<lparr> content_text = trim (stdout p), isError = False \<rparr>
            else \<lparr> content_text = ''Error: '' @ (if trim (stderr p) \<noteq> [] then trim (stderr p)
                                                 else trim (stdout p)),
                   isError = True \<rparr>),
      [(''./gkit.sh'', JStr c # gkitArgs tool args)])"
  using assms(3)
  by (simp add: call_tool_registry [OF assms(1,2)] executeGkit_def on_close_def caught_def)

theorem mcp_nonzero_exit_is_error_witness:
  "GkitCommands ! 5 \<in> set GkitCommands
   \<and> (tool_name (GkitCommands ! 5), ''ap'') \<in> set ToolToGkitCommandMap
   \<and> call_tool (test_env (child_closing 1 [] ''not a git repository'')) ''approve_pr''
        (Some (Map.empty(''pr_url'' \<mapsto> JStr ''https://github.com/o/r/pull/5'')))
      = (Some \<lparr> content_text = ''Error: not a git repository'', isError = True \<rparr>,
         [(''./gkit.sh'', [JStr ''ap'', JStr ''https://github.com/o/r/pull/5''])])
   \<and> call_tool (test_env (child_closing 0 ''approved'' ''warning'')) ''approve_pr''
        (Some (Map.empty(''pr_url'' \<mapsto> JStr ''https://github.com/o/r/pull/5'')))
      = (Some \<lparr> content_text = ''approved'', isError = False \<rparr>,
         [(''./gkit.sh'', [JStr ''ap'', JStr ''https://github.com/o/r/pull/5''])])"
proof -
  let ?tool = "GkitCommands ! 5"
  let ?args = "Map.empty(''pr_url'' \<mapsto> JStr ''https://github.com/o/r/pull/5'')"
  have t: "?tool \<in> set GkitCommands" by (simp add: GkitCommands_def)
  have n: "tool_name ?tool = ''approve_pr''" "paramOrder ?tool = [''pr_url'']"
    by (simp_all add: GkitCommands_def paramOrder_def)
  have c: "(tool_name ?tool, ''ap'') \<in> set ToolToGkitCommandMap"
    by (simp add: n ToolToGkitCommandMap_def)
  have a: "gkitArgs ?tool ?args = [JStr ''https://github.com/o/r/pull/5'']"
    by (simp add: gkitArgs_def n js_get_def)
  have tr: "trim ''not a git repository'' = ''not a git repository''" "trim [] = []"
    "trim ''approved'' = ''approved''" "trim ''warning'' = ''warning''"
    by (simp_all add: trim_def is_js_space_def)
  have s1: "spawn_child (test_env (child_closing 1 [] ''not a git repository'')) ''./gkit.sh''
              (JStr ''ap'' # gkitArgs ?tool ?args)
            = Some \<lparr> exit_code = Some 1, stdout = [], stderr = ''not a git repository'' \<rparr>"
    by (simp add: test_env_def child_closing_def)
  have s2: "spawn_child (test_env (child_closing 0 ''approved'' ''warning'')) ''./gkit.sh''
              (JStr ''ap'' # gkitArgs ?tool ?args)
            = Some \<lparr> exit_code = Some 0, stdout = ''approved'', stderr = ''warning'' \<rparr>"
    by (simp add: test_env_def child_closing_def)
  from mcp_nonzero_exit_is_error [OF t c s1] mcp_nonzero_exit_is_error [OF t c s2]
  show ?thesis using t c by (simp add: n a tr)
qed

lemma mcp_missing_required_not_rejected:
  "call_tool (test_env (child_closing 0 [] [])) ''approve_pr'' (Some Map.empty)
     = (Some \<lparr> content_text = [], isError = False \<rparr>, [(''./gkit.sh'', [JStr ''ap''])])"
proof -
  let ?tool = "GkitCommands ! 5"
  have t: "?tool \<in> set GkitCommands" by (simp add: GkitCommands_def)
  have n: "tool_name ?tool = ''approve_pr''" "paramOrder ?tool = [''pr_url'']"
    by (simp_all add: GkitCommands_def paramOrder_def)
  have c: "(tool_name ?tool, ''ap'') \<in> set ToolToGkitCommandMap"
    by (simp add: n ToolToGkitCommandMap_def)
  have a: "gkitArgs ?tool Map.empty = []"
    by (simp add: gkitArgs_def n js_get_def object_prototype_keys_def)
  from call_tool_registry [OF t c, of "test_env (child_closing 0 [] [])" Map.empty]
  show ?thesis
    by (simp add: n a executeGkit_def test_env_def child_closing_def on_close_def trim_def)
qed

text \<open>
  C7, as stated, fails: the handler does not check the type of an argument value. A call of
  \<open>approve_pr\<close> with the number 5 as \<open>pr_url\<close> is not rejected; the number is passed to
  the invoker and the child's output is returned as a result that is not an error.
\<close>

theorem non_string_argument_not_rejected:
  "call_tool (test_env (child_closing 0 ''approved'' [])) ''approve_pr''
        (Some (Map.empty(''pr_url'' \<mapsto> JNum 5)))
      = (Some \<lparr> content_text = ''approved'', isError = False \<rparr>,
         [(''./gkit.sh'', [JStr ''ap'', JNum 5])])"
proof -
  let ?tool = "GkitCommands ! 5"
  have t: "?tool \<in> set GkitCommands" by (simp add: GkitCommands_def)
  have n: "tool_name ?tool = ''approve_pr''" "paramOrder ?tool = [''pr_url'']"
    by (simp_all add: GkitCommands_def paramOrder_def)
  have c: "(tool_name ?tool, ''ap'') \<in> set ToolToGkitCommandMap"
    by (simp add: n ToolToGkitCommandMap_def)
  have a: "gkitArgs ?tool (Map.empty(''pr_url'' \<mapsto> JNum 5)) = [JNum 5]"
    by (simp add: gkitArgs_def n js_get_def)
  have tr: "trim ''approved'' = ''approved''" "trim [] = []"
    by (simp_all add: trim_def is_js_space_def)
  from call_tool_registry [OF t c, of "test_env (child_closing 0 ''approved'' [])" "Map.empty(''pr_url'' \<mapsto> JNum 5)"]
  show ?thesis
    by (simp add: n a executeGkit_def test_env_def child_closing_def on_close_def tr)
qed

text \<open>
  C7, amended. The only validation of the handler is that an argument mapping is present:
  without one it answers \<open>Error: Invalid arguments provided\<close> and spawns nothing. With a
  mapping, for every registry-mapped tool, it never rejects the request for the type of a
  value: it invokes the script once, passing every declared parameter whose value is not
  \<open>undefined\<close>, of whatever type, in declared order.
\<close>

theorem mcp_arguments_unchecked:
  assumes "tool \<in> set GkitCommands"
    and "(tool_name tool, c) \<in> set ToolToGkitCommandMap"
  shows "call_tool env (tool_name tool) None
           = (Some \<lparr> content_text = ''Error: Invalid arguments provided'', isError = True \<rparr>, [])
       \<and> snd (call_tool env (tool_name tool) (Some args))
           = [(''./gkit.sh'',
               JStr c # map (the \<circ> js_get args) (filter (\<lambda>p. js_get args p \<noteq> None) (paramOrder tool)))]"
proof -
  have "snd (call_tool env (tool_name tool) (Some args)) = [(''./gkit.sh'', JStr c # gkitArgs tool args)]"
    by (simp add: call_tool_registry [OF assms] executeGkit_def split: option.splits)
  then show ?thesis
    by (simp add: call_tool_def gkitArgs_filter)
qed

theorem mcp_arguments_unchecked_witness:
  "GkitCommands ! 5 \<in> set GkitCommands
   \<and> (tool_name (GkitCommands ! 5), ''ap'') \<in> set ToolToGkitCommandMap
   \<and> snd (call_tool (test_env (child_closing 0 ''approved'' [])) ''approve_pr''
        (Some (Map.empty(''pr_url'' \<mapsto> JArr [JBool True, JNull]))))
      = [(''./gkit.sh'', [JStr ''ap'', JArr [JBool True, JNull]])]
   \<and> call_tool (test_env (child_closing 0 ''approved'' [])) ''approve_pr'' None
      = (Some \<lparr> content_text = ''Error: Invalid arguments provided'', isError = True \<rparr>, [])"
proof -
  let ?tool = "GkitCommands ! 5"
  have t: "?tool \<in> set GkitCommands" by (simp add: GkitCommands_def)
  have n: "tool_name ?tool = ''approve_pr''" "paramOrder ?tool = [''pr_url'']"
    by (simp_all add: GkitCommands_def paramOrder_def)
  have c: "(tool_name ?tool, ''ap'') \<in> set ToolToGkitCommandMap"
    by (simp add: n ToolToGkitCommandMap_def)
  from mcp_arguments_unchecked [OF t c, of "test_env (child_closing 0 ''approved'' [])"
      "Map.empty(''pr_url'' \<mapsto> JArr [JBool True, JNull])"]
  show ?thesis using t c by (simp add: n js_get_def)
qed

section \<open>The rating of a review\<close>

lemma push_if_length: "length (push_if b s acc) = length acc + (if b then 1 else 0)"
  by (simp add: push_if_def)

lemma reviewCode_issue_count: "length (issues (reviewCode diff)) \<le> 5"
  by (simp add: reviewCode_def Let_def push_if_length)

lemma reviewCode_rating_eq: "rating (reviewCode diff) = 10 - int (length (issues (reviewCode diff)))"
proof -
  have "rating (reviewCode diff) = max 1 (10 - min (int (length (issues (reviewCode diff)))) 9)"
    by (simp add: reviewCode_def Let_def)
  with reviewCode_issue_count [of diff] show ?thesis by simp
qed

text \<open>
  C9. For every diff, the rating returned by \<open>reviewCode\<close> is an integer from 1 to 10, and
  it is 10 exactly when the list of issues is empty.
\<close>

theorem reviewCode_rating:
  "1 \<le> rating (reviewCode diff) \<and> rating (reviewCode diff) \<le> 10
   \<and> (rating (reviewCode diff) = 10 \<longleftrightarrow> issues (reviewCode diff) = [])"
  using reviewCode_issue_count [of diff] by (auto simp: reviewCode_rating_eq)

section \<open>The dispatcher of the script\<close>

lemma fold_echo: "fold echo ls st = st\<lparr> s_out := s_out st @ map (\<lambda>l. l @ [CHR 0x0A]) ls \<rparr>"
  by (induction ls arbitrary: st) (simp_all add: echo_def)

lemma gk_help_state:
  "gk_help env st = st\<lparr> s_out := s_out st @ map (\<lambda>l. l @ [CHR 0x0A]) (help_lines env) \<rparr>"
  by (simp add: gk_help_def fold_echo)

lemma check_deps_ok:
  "has_gh env \<Longrightarrow> has_fzf env \<Longrightarrow> has_jq env \<Longrightarrow> check_deps env st = Next () st"
  by (simp add: check_deps_def PR_ROOM_def)

lemma check_deps_no_process:
  "(\<exists>st'. check_deps env st = Next () st' \<and> s_procs st' = s_procs st \<and> s_out st' = s_out st)
   \<or> (\<exists>st'. check_deps env st = Exited 1 st' \<and> s_procs st' = s_procs st)"
  by (simp add: check_deps_def Let_def echo_err_def)

lemma route_unknown:
  "route c = Unknown \<longleftrightarrow>
     c \<notin> set [''prs'', ''pr'', ''sl'', ''slack'', ''nb'', ''nbs'', ''nbh'', ''ap'', ''approve'',
                ''mg'', ''merge'', ''wf'', ''help'', ''-h'', ''--help'']"
  by (simp add: route_def)

lemma main_unknown:
  assumes "c \<noteq> []" and "route c = Unknown"
  shows "\<exists>st. main env (c # rest) = Exited 1 st \<and> s_procs st = []
           \<and> (has_gh env \<and> has_fzf env \<and> has_jq env \<longrightarrow>
                s_err st = [[CHR 0xE2, CHR 0x9D, CHR 0x8C] @ '' Error: Unknown command '' @ [CHR 0x27] @ c @ [CHR 0x27, CHR 0x0A]]
              \<and> s_out st = [CHR 0x0A] # map (\<lambda>l. l @ [CHR 0x0A]) (help_lines env))"
proof (cases "has_gh env \<and> has_fzf env \<and> has_jq env")
  case True
  then have "check_deps env initial = Next () initial"
    by (simp add: check_deps_ok)
  then show ?thesis
    using assms True
    by (simp add: main_def and_then_def positional_def gk_help_state echo_def echo_err_def initial_def)
next
  case False
  then have "\<exists>st'. check_deps env initial = Exited 1 st' \<and> s_procs st' = s_procs initial"
    by (auto simp: check_deps_def Let_def echo_err_def)
  then show ?thesis
    using False by (auto simp: main_def and_then_def initial_def)
qed

text \<open>
  C10. With the three dependencies installed, the script called without a command, or with
  an empty first argument, prints the help text, starts no program and exits with status
  0; a command that the dispatcher does not know makes it exit with status 1.
\<close>

theorem no_command_prints_help:
  assumes "has_gh env" and "has_fzf env" and "has_jq env"
  shows "main env [] = Exited 0 \<lparr> s_procs = [], s_out = map (\<lambda>l. l @ [CHR 0x0A]) (help_lines env), s_err = [] \<rparr>
       \<and> main env ([] # rest) = Exited 0 \<lparr> s_procs = [], s_out = map (\<lambda>l. l @ [CHR 0x0A]) (help_lines env), s_err = [] \<rparr>
       \<and> (\<forall>c args. c \<noteq> [] \<and> route c = Unknown \<longrightarrow> (\<exists>st. main env (c # args) = Exited 1 st))"
proof -
  have d: "check_deps env initial = Next () initial"
    using assms by (simp add: check_deps_ok)
  have 1: "main env [] = Exited 0 \<lparr> s_procs = [], s_out = map (\<lambda>l. l @ [CHR 0x0A]) (help_lines env), s_err = [] \<rparr>"
    using d by (simp add: main_def and_then_def positional_def gk_help_state initial_def)
  have 2: "main env ([] # rest) = Exited 0 \<lparr> s_procs = [], s_out = map (\<lambda>l. l @ [CHR 0x0A]) (help_lines env), s_err = [] \<rparr>"
    using d by (simp add: main_def and_then_def positional_def gk_help_state initial_def)
  have 3: "\<exists>st. main env (c # args) = Exited 1 st" if "c \<noteq> [] \<and> route c = Unknown" for c args
    using main_unknown [of c env args] that by blast
  from 1 2 3 show ?thesis by blast
qed

theorem no_command_prints_help_witness:
  "has_gh (shell_with [] pr_world) \<and> has_fzf (shell_with [] pr_world) \<and> has_jq (shell_with [] pr_world)
   \<and> main (shell_with [] pr_world) [] =
       Exited 0 \<lparr> s_procs = [], s_out = map (\<lambda>l. l @ [CHR 0x0A]) (help_lines (shell_with [] pr_world)), s_err = [] \<rparr>
   \<and> hd (help_lines (shell_with [] pr_world)) = ''Git & GitHub Helper Scripts''
   \<and> (\<exists>st. main (shell_with [] pr_world) [''deploy''] = Exited 1 st)"
proof -
  let ?env = "shell_with [] pr_world"
  have a: "has_gh ?env" "has_fzf ?env" "has_jq ?env"
    by (simp_all add: shell_with_def)
  have u: "''deploy'' \<noteq> [] \<and> route ''deploy'' = Unknown"
    by (simp add: route_def)
  from no_command_prints_help [OF a, of "[]"] u
  have "main ?env [] =
       Exited 0 \<lparr> s_procs = [], s_out = map (\<lambda>l. l @ [CHR 0x0A]) (help_lines ?env), s_err = [] \<rparr>"
    and "\<exists>st. main ?env [''deploy''] = Exited 1 st"
    by blast+
  moreover have "hd (help_lines ?env) = ''Git & GitHub Helper Scripts''"
    by (simp add: help_lines_def)
  ultimately show ?thesis using a by simp
qed

section \<open>Unknown commands\<close>

lemma call_tool_unknown:
  assumes "n \<notin> set (map tool_name GkitCommands)" and "n \<notin> set advanced_names"
  shows "call_tool env n (Some args) =
           (Some \<lparr> content_text = ''Error: '' @
                     (if n \<in> set object_prototype_keys
                      then type_error_message env (PropertyOfUndefined ''inputSchema'')
                      else ''Unknown tool: '' @ n),
                   isError = True \<rparr>, [])"
proof -
  have f: "find (\<lambda>t. tool_name t = n) GkitCommands = None"
    using assms(1) by (auto simp: find_None_iff)
  show ?thesis
    using assms(2)
    by (simp add: call_tool_def command_for_unknown [OF assms(1)] f caught_def advanced_names_def)
qed

lemma call_tool_inherited_name:
  "call_tool (test_env sp) ''constructor'' (Some Map.empty) =
     (Some \<lparr> content_text = ''Error: Cannot read properties of undefined (reading ''
                              @ [CHR 0x27] @ ''inputSchema'' @ [CHR 0x27] @ '')'',
             isError = True \<rparr>, [])"
proof -
  have "''constructor'' \<notin> set (map tool_name GkitCommands)" "''constructor'' \<notin> set advanced_names"
    by (simp_all add: registry_names advanced_names_def)
  from call_tool_unknown [OF this] show ?thesis
    by (simp add: object_prototype_keys_def test_env_def)
qed

text \<open>
  C3, as stated, fails: two names outside the registry are served and start a process.
  The tool-call handler has a case of its own for \<open>commit\<close>, which runs \<open>git commit\<close> and
  answers with a result that is not an error. The HTTP adapter turns underscores into
  hyphens and Express ignores letter case, so the route of \<open>approve_pr\<close> answers the
  endpoint of the name \<open>APPROVE_PR\<close> and invokes the script.
\<close>

theorem names_outside_registry_served:
  "''commit'' \<notin> set (map tool_name GkitCommands)
   \<and> call_tool (test_env (child_closing 0 ''ok'' [])) ''commit''
        (Some (Map.empty(''diff'' \<mapsto> JStr ''fix typo'')))
      = (Some \<lparr> content_text =
                  join_lines [''Suggested commit and result:'', ''REVIEW:'', ''- Looks good.'',
                              ''COMMIT:'', ''fix: update based on diff'', ''---'',
                              ''Commit Message: fix: update based on diff'', ''Exit Code: 0'',
                              ''Stdout: ok'', ''Stderr: (empty)''],
                isError = False \<rparr>,
         [(''git'', [JStr ''commit'', JStr ''-m'', JStr ''fix: update based on diff''])])
   \<and> ''APPROVE_PR'' \<notin> set (map tool_name GkitCommands)
   \<and> endpoint ''APPROVE_PR'' = ''/api/APPROVE-PR''
   \<and> http_post (child_closing 0 ''approved'' []) ''/api/APPROVE-PR''
        (Map.empty(''pr_url'' \<mapsto> JStr ''https://github.com/o/r/pull/5''))
      = (Response \<lparr> http_status = 200,
           http_body = JObj [(''success'', JBool True), (''output'', JStr ''approved''),
                             (''error'', JStr [])] \<rparr>,
         [(''./gkit.sh'', [JStr ''ap'', JStr ''https://github.com/o/r/pull/5''])])"
proof -
  have n: "''commit'' \<notin> set (map tool_name GkitCommands)"
    "''APPROVE_PR'' \<notin> set (map tool_name GkitCommands)"
    by (simp_all add: registry_names)
  have c: "command_for ''commit'' = None"
    by (simp add: command_for_unknown [OF n(1)] object_prototype_keys_def)
  have tr: "trim ''ok'' = ''ok''" "trim [] = []" "trim ''approved'' = ''approved''"
    by (simp_all add: trim_def is_js_space_def)
  have f: "js_includes (toLowerCase ''fix typo'') ''fix''"
    by (simp add: toLowerCase_def lower_char_def)
  have d: "number_text 0 = ''0''"
    by (simp add: number_text_def digits.simps [of 0])
  have 1: "call_tool (test_env (child_closing 0 ''ok'' [])) ''commit''
        (Some (Map.empty(''diff'' \<mapsto> JStr ''fix typo'')))
      = (Some \<lparr> content_text =
                  join_lines [''Suggested commit and result:'', ''REVIEW:'', ''- Looks good.'',
                              ''COMMIT:'', ''fix: update based on diff'', ''---'',
                              ''Commit Message: fix: update based on diff'', ''Exit Code: 0'',
                              ''Stdout: ok'', ''Stderr: (empty)''],
                isError = False \<rparr>,
         [(''git'', [JStr ''commit'', JStr ''-m'', JStr ''fix: update based on diff''])])"
    by (simp add: call_tool_def c commit_tool_def js_get_def f executeCommand_def test_env_def
        child_closing_def tr d)
  let ?tool = "GkitCommands ! 5"
  have t: "?tool \<in> set GkitCommands" by (simp add: GkitCommands_def)
  have tn: "tool_name ?tool = ''approve_pr''" "tool_required ?tool = [''pr_url'']"
    "paramOrder ?tool = [''pr_url'']"
    by (simp_all add: GkitCommands_def paramOrder_def)
  have m: "(tool_name ?tool, ''ap'') \<in> set ToolToGkitCommandMap"
    by (simp add: tn ToolToGkitCommandMap_def)
  have e: "endpoint ''APPROVE_PR'' = ''/api/APPROVE-PR''"
    by (simp add: endpoint_def)
  have pm: "path_matches (endpoint (tool_name ?tool)) ''/api/APPROVE-PR''"
    by (simp add: tn endpoint_def path_matches_def ascii_lower_def)
  have "post_handler (child_closing 0 ''approved'' []) ?tool (JStr ''ap'')
          (Map.empty(''pr_url'' \<mapsto> JStr ''https://github.com/o/r/pull/5''))
      = (Response \<lparr> http_status = 200,
           http_body = JObj [(''success'', JBool True), (''output'', JStr ''approved''),
                             (''error'', JStr [])] \<rparr>,
         [(''./gkit.sh'', [JStr ''ap'', JStr ''https://github.com/o/r/pull/5''])])"
    by (simp add: post_handler_def missing_required_def tn js_get_def http_args_def executeGkit_def
        child_closing_def on_close_def result_json_def tr)
  with http_post_matching [OF t m pm]
  have 2: "http_post (child_closing 0 ''approved'' []) ''/api/APPROVE-PR''
        (Map.empty(''pr_url'' \<mapsto> JStr ''https://github.com/o/r/pull/5''))
      = (Response \<lparr> http_status = 200,
           http_body = JObj [(''success'', JBool True), (''output'', JStr ''approved''),
                             (''error'', JStr [])] \<rparr>,
         [(''./gkit.sh'', [JStr ''ap'', JStr ''https://github.com/o/r/pull/5''])])"
    by simp
  from n 1 e 2 show ?thesis by blast
qed

text \<open>
  C3, amended. A name that an adapter does not serve fails there and starts no process.
  The script, for a non-empty command outside the patterns of its \<open>case\<close>, exits with
  status 1 without starting a program, and with the dependencies installed it has printed
  the error line and the usage text. The tool-call handler, for a name that is neither in
  the registry nor one of its own tools \<open>rv_pr\<close>, \<open>review_code\<close> and \<open>commit\<close> nor a
  property name that every object inherits, answers with the error result
  \<open>Error: Unknown tool: <name>\<close> and spawns nothing; without an argument mapping it
  answers \<open>Error: Invalid arguments provided\<close> and spawns nothing. The HTTP adapter has
  no route for a POST whose path matches the endpoint of no registry entry, where matching
  ignores letter case and one trailing slash.
\<close>

theorem unknown_command_fails:
  "(c \<noteq> [] \<and> c \<notin> set [''prs'', ''pr'', ''sl'', ''slack'', ''nb'', ''nbs'', ''nbh'', ''ap'', ''approve'',
                           ''mg'', ''merge'', ''wf'', ''help'', ''-h'', ''--help'']
      \<longrightarrow> (\<exists>st. main env (c # rest) = Exited 1 st \<and> s_procs st = []
             \<and> (has_gh env \<and> has_fzf env \<and> has_jq env \<longrightarrow>
                  s_err st = [[CHR 0xE2, CHR 0x9D, CHR 0x8C] @ '' Error: Unknown command '' @ [CHR 0x27] @ c @ [CHR 0x27, CHR 0x0A]]
                \<and> s_out st = [CHR 0x0A] # map (\<lambda>l. l @ [CHR 0x0A]) (help_lines env))))
   \<and> (n \<notin> set (map tool_name GkitCommands) \<and> n \<notin> set advanced_names \<and> n \<notin> set object_prototype_keys
      \<longrightarrow> call_tool menv n (Some args) =
            (Some \<lparr> content_text = ''Error: Unknown tool: '' @ n, isError = True \<rparr>, [])
        \<and> call_tool menv n None =
            (Some \<lparr> content_text = ''Error: Invalid arguments provided'', isError = True \<rparr>, []))
   \<and> ((\<forall>t \<in> set GkitCommands. \<not> path_matches (endpoint (tool_name t)) path)
      \<longrightarrow> http_post sp path body = (NoRoute, []))"
proof -
  have a: "\<exists>st. main env (c # rest) = Exited 1 st \<and> s_procs st = []
             \<and> (has_gh env \<and> has_fzf env \<and> has_jq env \<longrightarrow>
                  s_err st = [[CHR 0xE2, CHR 0x9D, CHR 0x8C] @ '' Error: Unknown command '' @ [CHR 0x27] @ c @ [CHR 0x27, CHR 0x0A]]
                \<and> s_out st = [CHR 0x0A] # map (\<lambda>l. l @ [CHR 0x0A]) (help_lines env))"
    if "c \<noteq> [] \<and> c \<notin> set [''prs'', ''pr'', ''sl'', ''slack'', ''nb'', ''nbs'', ''nbh'', ''ap'', ''approve'',
                           ''mg'', ''merge'', ''wf'', ''help'', ''-h'', ''--help'']"
    using that main_unknown [of c env rest] unfolding route_unknown by blast
  have b: "call_tool menv n (Some args) =
            (Some \<lparr> content_text = ''Error: Unknown tool: '' @ n, isError = True \<rparr>, [])"
    if "n \<notin> set (map tool_name GkitCommands) \<and> n \<notin> set advanced_names \<and> n \<notin> set object_prototype_keys"
    using that call_tool_unknown [of n menv args] by simp
  have b': "call_tool menv n None =
            (Some \<lparr> content_text = ''Error: Invalid arguments provided'', isError = True \<rparr>, [])"
    by (simp add: call_tool_def)
  have c: "http_post sp path body = (NoRoute, [])"
    if "\<forall>t \<in> set GkitCommands. \<not> path_matches (endpoint (tool_name t)) path"
    using no_route [OF that] by (simp add: http_post_def)
  from a b b' c show ?thesis by blast
qed

theorem unknown_command_fails_witness:
  "(\<exists>st. main (shell_with [] pr_world) [''deploy'', ''now''] = Exited 1 st \<and> s_procs st = []
        \<and> s_err st = [[CHR 0xE2, CHR 0x9D, CHR 0x8C] @ '' Error: Unknown command '' @ [CHR 0x27] @ ''deploy'' @ [CHR 0x27, CHR 0x0A]])
   \<and> call_tool (test_env (child_closing 0 [] [])) ''deploy'' (Some Map.empty)
       = (Some \<lparr> content_text = ''Error: Unknown tool: deploy'', isError = True \<rparr>, [])
   \<and> http_post (child_closing 0 [] []) ''/api/deploy'' Map.empty = (NoRoute, [])"
proof -
  let ?env = "shell_with [] pr_world"
  let ?menv = "test_env (child_closing 0 [] [])"
  have h1: "''deploy'' \<noteq> [] \<and> ''deploy'' \<notin> set [''prs'', ''pr'', ''sl'', ''slack'', ''nb'', ''nbs'', ''nbh'', ''ap'', ''approve'',
                           ''mg'', ''merge'', ''wf'', ''help'', ''-h'', ''--help'']"
    by simp
  have h2: "''deploy'' \<notin> set (map tool_name GkitCommands) \<and> ''deploy'' \<notin> set advanced_names
            \<and> ''deploy'' \<notin> set object_prototype_keys"
    by (simp add: registry_names advanced_names_def object_prototype_keys_def)
  have "\<forall>n \<in> set (map tool_name GkitCommands). \<not> path_matches (endpoint n) ''/api/deploy''"
    unfolding registry_names by (simp add: endpoint_def path_matches_def ascii_lower_def)
  then have h3: "\<forall>t \<in> set GkitCommands. \<not> path_matches (endpoint (tool_name t)) ''/api/deploy''"
    by simp
  have d: "has_gh ?env \<and> has_fzf ?env \<and> has_jq ?env" by (simp add: shell_with_def)
  note t = unknown_command_fails [of "''deploy''" ?env "[''now'']" "''deploy''" ?menv Map.empty
      "''/api/deploy''" "child_closing 0 [] []" Map.empty]
  from t h1 d have 1: "\<exists>st. main ?env [''deploy'', ''now''] = Exited 1 st \<and> s_procs st = []
        \<and> s_err st = [[CHR 0xE2, CHR 0x9D, CHR 0x8C] @ '' Error: Unknown command '' @ [CHR 0x27] @ ''deploy'' @ [CHR 0x27, CHR 0x0A]]"
    by blast
  from t h2 have 2: "call_tool ?menv ''deploy'' (Some Map.empty)
       = (Some \<lparr> content_text = ''Error: Unknown tool: deploy'', isError = True \<rparr>, [])"
    by simp
  from t h3 have 3: "http_post (child_closing 0 [] []) ''/api/deploy'' Map.empty = (NoRoute, [])"
    by blast
  from 1 2 3 show ?thesis by blast
qed

section \<open>The pull-request command and the Slack notification\<close>

lemma gk_slack_api_answer:
  assumes "SLACK_TOKEN env \<noteq> []" and "args \<noteq> []"
    and "r_status (world env (length (s_procs st))
           \<lparr> p_argv = curl_slack (SLACK_TOKEN env) PR_ROOM (all_args args), p_stdin = [] \<rparr>) = 0"
  shows "\<exists>st'. gk_slack env args st = Next 0 st'"
  using assms
  by (simp add: gk_slack_def Let_def and_then_def assigned_def capture_def echo_def split: prod.splits)

lemma gk_slack_no_token:
  assumes "SLACK_TOKEN env = []"
  shows "gk_slack env args st =
           Next 1 (echo ([CHR 0xE2, CHR 0x9D, CHR 0x8C] @ '' SLACK_TOKEN not set. export SLACK_TOKEN=''
                         @ [CHR 0x27] @ ''xoxb-xxxx'' @ [CHR 0x27]) st)"
  using assms by (simp add: gk_slack_def)

lemma pr_world_simps:
  "pr_world k \<lparr> p_argv = ''gh'' # a, p_stdin = i \<rparr> = prints ''https://github.com/o/r/pull/5''"
  "pr_world k \<lparr> p_argv = [''git'', ''branch'', ''--show-current''], p_stdin = i \<rparr> = prints ''feature-x''"
  "pr_world k \<lparr> p_argv = [''git'', ''config'', ''user.name''], p_stdin = i \<rparr> = prints ''dev''"
  "pr_world k \<lparr> p_argv = ''grep'' # a, p_stdin = i \<rparr> = prints ''5''"
  "pr_world k \<lparr> p_argv = [''git'', ''rev-parse'', ''--show-toplevel''], p_stdin = i \<rparr> = prints ''/home/dev/r''"
  "pr_world k \<lparr> p_argv = ''basename'' # a, p_stdin = i \<rparr> = prints ''r''"
  "pr_world k \<lparr> p_argv = ''fzf'' # a, p_stdin = i \<rparr> = prints ''NONE:''"
  "pr_world k \<lparr> p_argv = [''jq'', ''-r'', ''.ok''], p_stdin = i \<rparr> = prints ''false''"
  "pr_world k \<lparr> p_argv = [''jq'', ''-r'', ''.error''], p_stdin = i \<rparr> = prints ''channel_not_found''"
  by (simp_all add: pr_world_def)

lemma capture_prints:
  assumes "w (length (s_procs st)) \<lparr> p_argv = argv, p_stdin = input \<rparr> = prints s"
    and "s = [] \<or> last s \<noteq> CHR 0x0A"
  shows "capture w argv input st =
           ((s, 0), st\<lparr> s_procs := s_procs st @ [\<lparr> p_argv = argv, p_stdin = input \<rparr>], s_err := s_err st @ [[]] \<rparr>)"
proof -
  have "chomp (s @ [CHR 0x0A]) = s"
    using assms(2) by (cases s rule: rev_cases) (auto simp: chomp_def)
  then show ?thesis
    using assms(1) by (simp add: capture_def prints_def)
qed


lemmas script_defs =
  main_def check_deps_def gk_pr_def gk_slack_def finish_def called_def and_then_def
  assigned_def checked_def capture_def run_fg_def echo_def echo_err_def positional_def route_def
  shell_with_def initial_def PR_ROOM_def prints_def chomp_def pr_message_def slack_users_def
  curl_slack_def after_colon_def Let_def pr_world_simps

text \<open>
  C8 at its failing input: \<open>./gkit.sh pr main "Fix login"\<close> without \<open>SLACK_TOKEN\<close>, in a
  world where the pull request is created. The script reports the pull request, then
  \<open>gk_slack\<close> returns 1 and the shell exits with status 1 under \<open>set -e\<close>.
\<close>

theorem pr_without_slack_token_exits_1:
  "exit_status (main (shell_with [] pr_world) [''pr'', ''main'', ''Fix login'']) = Some 1
   \<and> map (hd \<circ> p_argv) (s_procs (final_state (main (shell_with [] pr_world) [''pr'', ''main'', ''Fix login''])))
       = [''gh'', ''git'', ''git'', ''grep'', ''git'', ''basename'', ''fzf'']
   \<and> ([CHR 0xE2, CHR 0x9C, CHR 0x85] @ '' Pull request created: https://github.com/o/r/pull/5 ''
        @ [CHR 0xF0, CHR 0x9F, CHR 0x8E, CHR 0x89, CHR 0x0A])
       \<in> set (s_out (final_state (main (shell_with [] pr_world) [''pr'', ''main'', ''Fix login''])))
   \<and> last (s_out (final_state (main (shell_with [] pr_world) [''pr'', ''main'', ''Fix login''])))
       = [CHR 0xE2, CHR 0x9D, CHR 0x8C] @ '' SLACK_TOKEN not set. export SLACK_TOKEN=''
         @ [CHR 0x27] @ ''xoxb-xxxx'' @ [CHR 0x27, CHR 0x0A]"
  by (simp add: script_defs)

lemma pr_with_slack_api_error_exits_0:
  "exit_status (main (shell_with ''xoxb-1'' pr_world) [''pr'', ''main'', ''Fix login'']) = Some 0
   \<and> last (s_out (final_state (main (shell_with ''xoxb-1'' pr_world) [''pr'', ''main'', ''Fix login''])))
       = [CHR 0xE2, CHR 0x9D, CHR 0x8C] @ '' Error: channel_not_found'' @ [CHR 0x0A]"
  by (simp add: script_defs pr_world_def)


end
